theory Spec2Isabelle
  imports Main "HOL-Library.Word" "HOL-Library.Signed_Division"
begin

unbundle bit_operations_syntax

chapter \<open>The model of the driver\<close>

section \<open>The EV3 tacho motor driver: data model\<close>

text \<open>
  This theory embeds the control core of \<^verbatim>\<open>src/motors/ev3_tacho_motor.c\<close>: the encoder
  interrupt handler, the speed estimator, the ramp state machine run by the 2 ms timer
  callback, the two regulators, the output mapper and the accessors of the function-pointer
  table.

  The driver runs on the LEGO EV3 (ARM9, ILP32): \<^verbatim>\<open>int\<close>, \<^verbatim>\<open>long\<close>, \<^verbatim>\<open>unsigned\<close> and
  \<^verbatim>\<open>unsigned long\<close> are all 32 bits wide, and the kernel is built so that signed
  arithmetic wraps. Every integer of the source is therefore a \<open>32 word\<close>; signed
  comparisons are \<open><s\<close> and \<open>\<le>s\<close>, unsigned ones \<open><\<close> and \<open>\<le>\<close>.
\<close>

type_synonym c_int = "32 word"

text \<open>Signed division of C truncates towards zero. Division by zero is undefined in C;
  the model returns 0 there (what the ARM kernel's division helper leaves in the result
  register after logging), and \<open>INT_MIN / -1\<close> wraps to \<open>INT_MIN\<close>.\<close>

definition c_sdiv :: "c_int \<Rightarrow> c_int \<Rightarrow> c_int" where
  "c_sdiv a b = word_of_int (sint a sdiv sint b)"

text \<open>The kernel's \<^verbatim>\<open>abs()\<close> macro: \<^verbatim>\<open>(x < 0) ? -x : x\<close>.\<close>

definition c_abs :: "c_int \<Rightarrow> c_int" where
  "c_abs x = (if x <s 0 then - x else x)"

subsection \<open>Enumerations\<close>

text \<open>The enumerations declared in the source file.\<close>

datatype ev3_tacho_motor_type =
    MOTOR_TYPE_0 | MOTOR_TYPE_1 | MOTOR_TYPE_2 | MOTOR_TYPE_3
  | MOTOR_TYPE_4 | MOTOR_TYPE_5 | MOTOR_TYPE_6
  | MOTOR_TYPE_TACHO | MOTOR_TYPE_MINITACHO | MOTOR_TYPE_NEWTACHO
  | MOTOR_TYPE_10 | MOTOR_TYPE_11 | MOTOR_TYPE_12 | MOTOR_TYPE_13
  | MOTOR_TYPE_14 | MOTOR_TYPE_15

datatype ev3_tacho_motor_samples =
    SAMPLES_PER_SPEED_BELOW_40 | SAMPLES_PER_SPEED_ABOVE_40
  | SAMPLES_PER_SPEED_ABOVE_60 | SAMPLES_PER_SPEED_ABOVE_80

datatype ev3_tacho_motor_command = UNKNOWN | FORWARD | REVERSE | BRAKE | COAST

text \<open>
  Modelled from the spec: the enumerations of \<^verbatim>\<open>tacho_motor_class.h\<close> and
  \<^verbatim>\<open>dc_motor_class.h\<close>, headers of this repository which the source includes and which
  are not among the source files embedded here. Each datatype lists the enumerators the source file names; the
  states are the ten of the specification's ramp profile engine, the polarity has the
  "normal" and "inverted" of the truth table in the interrupt handler's comment.
\<close>

datatype tm_state =
    TM_STATE_RUN_FOREVER | TM_STATE_SETUP_RAMP_TIME | TM_STATE_SETUP_RAMP_POSITION
  | TM_STATE_SETUP_RAMP_REGULATION | TM_STATE_RAMP_UP | TM_STATE_RAMP_CONST
  | TM_STATE_POSITION_RAMP_DOWN | TM_STATE_RAMP_DOWN | TM_STATE_STOP | TM_STATE_IDLE

datatype tm_run_mode = TM_RUN_FOREVER | TM_RUN_TIME | TM_RUN_POSITION

datatype tm_regulation_mode = TM_REGULATION_OFF | TM_REGULATION_ON

datatype tm_stop_mode = TM_STOP_COAST | TM_STOP_BRAKE | TM_STOP_HOLD

datatype tm_position_mode = TM_POSITION_ABSOLUTE | TM_POSITION_RELATIVE

datatype tm_type = TM_TYPE_TACHO | TM_TYPE_MINITACHO

datatype dc_motor_polarity = DC_MOTOR_POLARITY_NORMAL | DC_MOTOR_POLARITY_INVERTED

datatype dc_motor_command =
    DC_MOTOR_COMMAND_RUN | DC_MOTOR_COMMAND_COAST | DC_MOTOR_COMMAND_BRAKE

text \<open>Modelled from the spec: the motor type id of the platform data
  (\<^verbatim>\<open>pdata->motor_type_id\<close>), whose constants are declared outside the source file: the
  medium motor, the large motor, and any other id.\<close>

datatype motor_type_id = TACHO_MOTOR_EV3_MEDIUM | TACHO_MOTOR_EV3_LARGE | TACHO_MOTOR_OTHER

text \<open>Modelled from the spec: \<^verbatim>\<open>!polarity_mode\<close>, the logical negation of the enumerator,
  with normal as 0 and inverted as 1.\<close>

fun polarity_not :: "dc_motor_polarity \<Rightarrow> dc_motor_polarity" where
  "polarity_not DC_MOTOR_POLARITY_NORMAL = DC_MOTOR_POLARITY_INVERTED"
| "polarity_not DC_MOTOR_POLARITY_INVERTED = DC_MOTOR_POLARITY_NORMAL"

subsection \<open>Effects on the collaborators\<close>

text \<open>
  The driver calls the three operations of the port's \<^verbatim>\<open>motor_ops\<close> and schedules the
  state-change notification. The model records each call, oldest first, in the field
  \<open>calls\<close> of the state: the trace is the model's view of the outside world, not a field
  of the C struct.
\<close>

datatype ext_call =
    Set_direction dc_motor_polarity
  | Set_command dc_motor_command
  | Set_duty_cycle c_int
  | Schedule_notify_state_change

subsection \<open>The device structure\<close>

text \<open>
  \<^verbatim>\<open>struct ev3_tacho_motor_data\<close>, with the nested \<^verbatim>\<open>ramp\<close> and \<^verbatim>\<open>pid\<close> structs
  flattened (\<^verbatim>\<open>ramp.up.end\<close> is \<open>ramp_up_end\<close>) and the field \<^verbatim>\<open>power\<close> named \<open>power_lvl\<close>.
  The kernel objects (timer, work item, device pointers) are left out.
\<close>

record ev3_tacho_motor_data =
  tacho_samples :: "c_int list"
  tacho_samples_head :: c_int
  got_new_sample :: bool
  samples_per_speed :: c_int
  dir_chg_samples :: c_int
  counts_per_pulse :: c_int
  pulses_per_second :: c_int
  class_mutex :: bool
  irq_mutex :: bool
  ramp_up_start :: c_int
  ramp_up_end :: c_int
  ramp_up_full :: c_int
  ramp_down_start :: c_int
  ramp_down_end :: c_int
  ramp_down_full :: c_int
  ramp_percent :: c_int
  ramp_direction :: c_int
  ramp_position_sp :: c_int
  ramp_count :: c_int
  pid_P :: c_int
  pid_I :: c_int
  pid_D :: c_int
  pid_speed_regulation_P :: c_int
  pid_speed_regulation_I :: c_int
  pid_speed_regulation_D :: c_int
  pid_speed_regulation_K :: c_int
  pid_prev_pulses_per_second :: c_int
  pid_prev_position_error :: c_int
  speed_reg_sp :: c_int
  run_direction :: ev3_tacho_motor_command
  run :: c_int
  estop :: c_int
  motor_type :: ev3_tacho_motor_type
  tacho :: c_int
  irq_tacho :: c_int
  speed :: c_int
  power_lvl :: c_int
  state :: tm_state
  duty_cycle_sp :: c_int
  pulses_per_second_sp :: c_int
  time_sp :: c_int
  position_sp :: c_int
  ramp_up_sp :: c_int
  ramp_down_sp :: c_int
  run_mode :: tm_run_mode
  regulation_mode :: tm_regulation_mode
  stop_mode :: tm_stop_mode
  position_mode :: tm_position_mode
  polarity_mode :: dc_motor_polarity
  encoder_mode :: dc_motor_polarity
  calls :: "ext_call list"

definition TACHO_SAMPLES :: c_int where
  "TACHO_SAMPLES = 128"

definition MAX_POWER :: c_int where
  "MAX_POWER = 100"

subsection \<open>The per-motor constant tables\<close>

fun SamplesPerSpeed :: "ev3_tacho_motor_type \<Rightarrow> ev3_tacho_motor_samples \<Rightarrow> c_int" where
  "SamplesPerSpeed MOTOR_TYPE_TACHO SAMPLES_PER_SPEED_BELOW_40 = 4"
| "SamplesPerSpeed MOTOR_TYPE_TACHO SAMPLES_PER_SPEED_ABOVE_40 = 16"
| "SamplesPerSpeed MOTOR_TYPE_TACHO SAMPLES_PER_SPEED_ABOVE_60 = 32"
| "SamplesPerSpeed MOTOR_TYPE_TACHO SAMPLES_PER_SPEED_ABOVE_80 = 64"
| "SamplesPerSpeed MOTOR_TYPE_MINITACHO SAMPLES_PER_SPEED_BELOW_40 = 2"
| "SamplesPerSpeed MOTOR_TYPE_MINITACHO SAMPLES_PER_SPEED_ABOVE_40 = 4"
| "SamplesPerSpeed MOTOR_TYPE_MINITACHO SAMPLES_PER_SPEED_ABOVE_60 = 8"
| "SamplesPerSpeed MOTOR_TYPE_MINITACHO SAMPLES_PER_SPEED_ABOVE_80 = 16"
| "SamplesPerSpeed _ _ = 2"

fun CountsPerPulse :: "ev3_tacho_motor_type \<Rightarrow> c_int" where
  "CountsPerPulse MOTOR_TYPE_TACHO = 3300000"
| "CountsPerPulse MOTOR_TYPE_MINITACHO = 2062500"
| "CountsPerPulse _ = 1"

fun MaxPulsesPerSec :: "ev3_tacho_motor_type \<Rightarrow> c_int" where
  "MaxPulsesPerSec MOTOR_TYPE_TACHO = 900"
| "MaxPulsesPerSec MOTOR_TYPE_MINITACHO = 1200"
| "MaxPulsesPerSec _ = 1"

definition set_samples_per_speed :: "c_int \<Rightarrow> ev3_tacho_motor_data \<Rightarrow> ev3_tacho_motor_data" where
  "set_samples_per_speed spd s =
     (if 80 <s spd then
        s\<lparr>samples_per_speed := SamplesPerSpeed (motor_type s) SAMPLES_PER_SPEED_ABOVE_80\<rparr>
      else if 60 <s spd then
        s\<lparr>samples_per_speed := SamplesPerSpeed (motor_type s) SAMPLES_PER_SPEED_ABOVE_60\<rparr>
      else if 40 <s spd then
        s\<lparr>samples_per_speed := SamplesPerSpeed (motor_type s) SAMPLES_PER_SPEED_ABOVE_40\<rparr>
      else
        s\<lparr>samples_per_speed := SamplesPerSpeed (motor_type s) SAMPLES_PER_SPEED_BELOW_40\<rparr>)"

section \<open>The encoder interrupt handler\<close>

text \<open>The nested conditionals that resolve the direction of rotation from the two line
  states and the two polarity settings.\<close>

definition resolve_direction ::
  "dc_motor_polarity \<Rightarrow> dc_motor_polarity \<Rightarrow> bool \<Rightarrow> bool \<Rightarrow> ev3_tacho_motor_command" where
  "resolve_direction pol enc int_state dir_state =
     (if pol = DC_MOTOR_POLARITY_NORMAL then
        (if enc = DC_MOTOR_POLARITY_NORMAL then
           (if int_state = dir_state then FORWARD else REVERSE)
         else
           (if int_state = dir_state then REVERSE else FORWARD))
      else
        (if enc = DC_MOTOR_POLARITY_NORMAL then
           (if int_state = dir_state then REVERSE else FORWARD)
         else
           (if int_state = dir_state then FORWARD else REVERSE)))"

text \<open>\<^verbatim>\<open>if (dir_chg_samples < TACHO_SAMPLES-1) dir_chg_samples++\<close>\<close>

definition bump_dir_chg_samples :: "ev3_tacho_motor_data \<Rightarrow> ev3_tacho_motor_data" where
  "bump_dir_chg_samples s =
     (if dir_chg_samples s <s TACHO_SAMPLES - 1
      then s\<lparr>dir_chg_samples := dir_chg_samples s + 1\<rparr> else s)"

text \<open>
  \<^verbatim>\<open>tacho_motor_isr\<close>. The inputs are the values read from the two GPIO lines and the
  hardware timestamp; \<^verbatim>\<open>dir_state\<close> is the negated level of the direction line. The
  first component of the intermediate triple is the state after the speed test, the
  second \<^verbatim>\<open>next_direction\<close>, the third \<^verbatim>\<open>next_sample\<close>.
\<close>

definition isr_decide ::
  "bool \<Rightarrow> bool \<Rightarrow> c_int \<Rightarrow> ev3_tacho_motor_data \<Rightarrow>
     ev3_tacho_motor_data \<times> ev3_tacho_motor_command \<times> c_int" where
  "isr_decide int_state dir_state timer s =
     (let prev_timer = tacho_samples s ! unat (tacho_samples_head s);
          next_sample = (tacho_samples_head s + 1) mod TACHO_SAMPLES
      in
      if 35 <s speed s \<or> speed s <s - 35 then
        (bump_dir_chg_samples s, run_direction s, next_sample)
      else
        (let next_direction =
               resolve_direction (polarity_mode s) (encoder_mode s) int_state dir_state
         in
         if timer - prev_timer < 400 * 33 then
           (s\<lparr>tacho_samples := (tacho_samples s)[unat (tacho_samples_head s) := timer],
              irq_tacho := (if FORWARD = run_direction s
                            then irq_tacho s - 1 else irq_tacho s + 1)\<rparr>,
            next_direction, tacho_samples_head s)
         else
           ((if run_direction s = next_direction
             then bump_dir_chg_samples s else s\<lparr>dir_chg_samples := 0\<rparr>),
            next_direction, next_sample)))"

definition tacho_motor_isr ::
  "bool \<Rightarrow> bool \<Rightarrow> c_int \<Rightarrow> ev3_tacho_motor_data \<Rightarrow> ev3_tacho_motor_data" where
  "tacho_motor_isr int_gpio dir_gpio timer s =
     (let int_state = int_gpio;
          dir_state = \<not> dir_gpio;
          (s1, next_direction, next_sample) = isr_decide int_state dir_state timer s;
          s2 = s1\<lparr>run_direction := next_direction\<rparr>;
          s3 = s2\<lparr>tacho_samples := (tacho_samples s2)[unat next_sample := timer],
                  tacho_samples_head := next_sample\<rparr>;
          s4 = s3\<lparr>irq_mutex := True\<rparr>;
          s5 = s4\<lparr>irq_tacho := (if FORWARD = run_direction s4
                                then irq_tacho s4 + 1 else irq_tacho s4 - 1)\<rparr>;
          s6 = s5\<lparr>got_new_sample := True\<rparr>
      in s6\<lparr>irq_mutex := False\<rparr>)"

section \<open>The output mapper\<close>

definition emit :: "ext_call \<Rightarrow> ev3_tacho_motor_data \<Rightarrow> ev3_tacho_motor_data" where
  "emit c s = s\<lparr>calls := calls s @ [c]\<rparr>"

definition ev3_tacho_motor_update_output :: "ev3_tacho_motor_data \<Rightarrow> ev3_tacho_motor_data" where
  "ev3_tacho_motor_update_output s =
     (let s1 =
        (if 0 <s power_lvl s then
           (let a = emit (Set_command DC_MOTOR_COMMAND_RUN)
                      (emit (Set_direction (polarity_mode s)) s)
            in if regulation_mode a = TM_REGULATION_OFF \<and> power_lvl a <s 10
               then a\<lparr>power_lvl := 10\<rparr> else a)
         else if power_lvl s <s 0 then
           (let a = emit (Set_command DC_MOTOR_COMMAND_RUN)
                      (emit (Set_direction (polarity_not (polarity_mode s))) s)
            in if regulation_mode a = TM_REGULATION_OFF \<and> - 10 <s power_lvl a
               then a\<lparr>power_lvl := - 10\<rparr> else a)
         else
           (case stop_mode s of
              TM_STOP_COAST \<Rightarrow> emit (Set_command DC_MOTOR_COMMAND_COAST) s
            | TM_STOP_BRAKE \<Rightarrow> emit (Set_command DC_MOTOR_COMMAND_BRAKE) s
            | TM_STOP_HOLD \<Rightarrow> emit (Set_command DC_MOTOR_COMMAND_BRAKE) s))
      in emit (Set_duty_cycle (c_abs (power_lvl s1))) s1)"

text \<open>The clamp of \<^verbatim>\<open>ev3_tacho_motor_set_power\<close>.\<close>

definition clamp_power :: "c_int \<Rightarrow> c_int" where
  "clamp_power p =
     (if MAX_POWER <s p then MAX_POWER
      else if p <s - MAX_POWER then - MAX_POWER
      else p)"

definition ev3_tacho_motor_set_power :: "c_int \<Rightarrow> ev3_tacho_motor_data \<Rightarrow> ev3_tacho_motor_data" where
  "ev3_tacho_motor_set_power p s =
     (if power_lvl s = p then s
      else ev3_tacho_motor_update_output (s\<lparr>power_lvl := clamp_power p\<rparr>))"

section \<open>Reset\<close>

text \<open>\<^verbatim>\<open>ev3_tacho_motor_reset\<close>; the argument is \<^verbatim>\<open>pdata->motor_type_id\<close>. The fields
  \<^verbatim>\<open>ramp.up.full\<close> and \<^verbatim>\<open>ramp.down.full\<close> are not assigned by the source.\<close>

definition ev3_tacho_motor_reset :: "motor_type_id \<Rightarrow> ev3_tacho_motor_data \<Rightarrow> ev3_tacho_motor_data" where
  "ev3_tacho_motor_reset mid s =
     s\<lparr>tacho_samples := replicate 128 0,
       tacho_samples_head := 0,
       got_new_sample := False,
       samples_per_speed := SamplesPerSpeed MOTOR_TYPE_TACHO SAMPLES_PER_SPEED_BELOW_40,
       dir_chg_samples := 0,
       counts_per_pulse := CountsPerPulse MOTOR_TYPE_TACHO,
       pulses_per_second := 0,
       class_mutex := False,
       irq_mutex := False,
       ramp_up_start := 0,
       ramp_up_end := 0,
       ramp_down_start := 0,
       ramp_down_end := 0,
       ramp_percent := 0,
       ramp_direction := 0,
       ramp_position_sp := 0,
       ramp_count := 0,
       pid_P := 0,
       pid_I := 0,
       pid_D := 0,
       motor_type := (if mid = TACHO_MOTOR_EV3_MEDIUM then MOTOR_TYPE_MINITACHO
                      else if mid = TACHO_MOTOR_EV3_LARGE then MOTOR_TYPE_TACHO
                      else MOTOR_TYPE_TACHO),
       pid_speed_regulation_P := 1000,
       pid_speed_regulation_I := 60,
       pid_speed_regulation_D := 0,
       pid_speed_regulation_K := 9000,
       pid_prev_pulses_per_second := 0,
       pid_prev_position_error := 0,
       speed_reg_sp := 0,
       run_direction := UNKNOWN,
       run := 0,
       estop := 0,
       tacho := 0,
       irq_tacho := 0,
       speed := 0,
       power_lvl := 0,
       state := TM_STATE_IDLE,
       duty_cycle_sp := 0,
       pulses_per_second_sp := 0,
       time_sp := 0,
       position_sp := 0,
       ramp_up_sp := 0,
       ramp_down_sp := 0,
       run_mode := TM_RUN_FOREVER,
       regulation_mode := TM_REGULATION_OFF,
       stop_mode := TM_STOP_COAST,
       position_mode := TM_POSITION_ABSOLUTE,
       polarity_mode := DC_MOTOR_POLARITY_NORMAL,
       encoder_mode := DC_MOTOR_POLARITY_NORMAL\<rparr>"

text \<open>The structure as \<^verbatim>\<open>kzalloc\<close> returns it in \<^verbatim>\<open>ev3_tacho_motor_probe\<close>: every integer 0,
  every flag false, no call made. The enumeration fields hold placeholders; the reset
  that the probe runs assigns each of them.\<close>

definition kzalloc_data :: ev3_tacho_motor_data where
  "kzalloc_data =
     \<lparr>tacho_samples = replicate 128 0, tacho_samples_head = 0, got_new_sample = False,
      samples_per_speed = 0, dir_chg_samples = 0, counts_per_pulse = 0,
      pulses_per_second = 0, class_mutex = False, irq_mutex = False,
      ramp_up_start = 0, ramp_up_end = 0, ramp_up_full = 0,
      ramp_down_start = 0, ramp_down_end = 0, ramp_down_full = 0,
      ramp_percent = 0, ramp_direction = 0, ramp_position_sp = 0, ramp_count = 0,
      pid_P = 0, pid_I = 0, pid_D = 0,
      pid_speed_regulation_P = 0, pid_speed_regulation_I = 0,
      pid_speed_regulation_D = 0, pid_speed_regulation_K = 0,
      pid_prev_pulses_per_second = 0, pid_prev_position_error = 0,
      speed_reg_sp = 0, run_direction = UNKNOWN, run = 0, estop = 0,
      motor_type = MOTOR_TYPE_0, tacho = 0, irq_tacho = 0, speed = 0, power_lvl = 0,
      state = TM_STATE_IDLE, duty_cycle_sp = 0, pulses_per_second_sp = 0, time_sp = 0,
      position_sp = 0, ramp_up_sp = 0, ramp_down_sp = 0,
      run_mode = TM_RUN_FOREVER, regulation_mode = TM_REGULATION_OFF,
      stop_mode = TM_STOP_COAST, position_mode = TM_POSITION_ABSOLUTE,
      polarity_mode = DC_MOTOR_POLARITY_NORMAL, encoder_mode = DC_MOTOR_POLARITY_NORMAL,
      calls = []\<rparr>"

definition probe_data :: "motor_type_id \<Rightarrow> ev3_tacho_motor_data" where
  "probe_data mid = ev3_tacho_motor_reset mid kzalloc_data"

section \<open>The speed estimator\<close>

text \<open>
  \<^verbatim>\<open>calculate_speed\<close>. The argument \<open>now\<close> is the value \<^verbatim>\<open>legoev3_hires_timer_read()\<close>
  returns. \<^verbatim>\<open>Diff\<close> is unsigned, so the two quotients and the stall test are unsigned
  operations. The result pairs the new state with \<^verbatim>\<open>speed_updated\<close>.
\<close>

definition calculate_speed :: "c_int \<Rightarrow> ev3_tacho_motor_data \<Rightarrow> ev3_tacho_motor_data \<times> bool" where
  "calculate_speed now s =
     (let DiffIdx = tacho_samples_head s;
          s1 = (if 1 \<le>s dir_chg_samples s then
                  (let Diff = (tacho_samples s ! unat DiffIdx
                               - tacho_samples s ! unat ((DiffIdx + TACHO_SAMPLES - 1) mod TACHO_SAMPLES))
                              OR 1
                   in set_samples_per_speed (counts_per_pulse s div Diff) s)
                else s)
      in
      if got_new_sample s1 \<and> samples_per_speed s1 \<le>s dir_chg_samples s1 then
        (let Diff = (tacho_samples s1 ! unat DiffIdx
                     - tacho_samples s1 !
                         unat ((DiffIdx + TACHO_SAMPLES - samples_per_speed s1) mod TACHO_SAMPLES))
                    OR 1;
             s2 = s1\<lparr>pulses_per_second := (33000000 * samples_per_speed s1) div Diff\<rparr>;
             s3 = (if run_direction s2 = REVERSE
                   then s2\<lparr>pulses_per_second := - pulses_per_second s2\<rparr> else s2)
         in (s3\<lparr>got_new_sample := False\<rparr>, True))
      else if counts_per_pulse s1 < now - tacho_samples s1 ! unat DiffIdx then
        (s1\<lparr>dir_chg_samples := 0, pulses_per_second := 0\<rparr>, True)
      else (s1, False))"

section \<open>The regulators\<close>

text \<open>The power that \<^verbatim>\<open>regulate_speed\<close> computes from the three terms it has just
  stored, and the function itself.\<close>

definition pid_power :: "ev3_tacho_motor_data \<Rightarrow> c_int" where
  "pid_power s =
     c_sdiv (pid_P s * pid_speed_regulation_P s
             + pid_I s * pid_speed_regulation_I s
             + pid_D s * pid_speed_regulation_D s)
            (pid_speed_regulation_K s)"

text \<open>The clamp of the setpoint at the head of \<^verbatim>\<open>regulate_speed\<close>.\<close>

definition clamp_speed_reg_sp :: "ev3_tacho_motor_data \<Rightarrow> ev3_tacho_motor_data" where
  "clamp_speed_reg_sp s =
     (if MaxPulsesPerSec (motor_type s) <s speed_reg_sp s then
        s\<lparr>speed_reg_sp := MaxPulsesPerSec (motor_type s)\<rparr>
      else if speed_reg_sp s <s - MaxPulsesPerSec (motor_type s) then
        s\<lparr>speed_reg_sp := - MaxPulsesPerSec (motor_type s)\<rparr>
      else s)"

text \<open>The part of \<^verbatim>\<open>regulate_speed\<close> before the call of the output mapper: the three terms,
  the computed power and the anti-windup correction. The result pairs the state with the
  local variable \<^verbatim>\<open>power\<close>.\<close>

definition regulate_speed_terms :: "ev3_tacho_motor_data \<Rightarrow> ev3_tacho_motor_data \<times> c_int" where
  "regulate_speed_terms s =
     (let s1 = clamp_speed_reg_sp s;
          speed_error = speed_reg_sp s1 - pulses_per_second s1;
          s2 = s1\<lparr>pid_P := speed_error\<rparr>;
          s3 = s2\<lparr>pid_I := pid_I s2 + speed_error\<rparr>;
          s4 = s3\<lparr>pid_D := pulses_per_second s3 - pid_prev_pulses_per_second s3\<rparr>;
          s5 = s4\<lparr>pid_prev_pulses_per_second := pulses_per_second s4\<rparr>;
          power = pid_power s5;
          s6 = (if 100 <s c_abs power then s5\<lparr>pid_I := pid_I s5 - speed_error\<rparr> else s5)
      in (s6, power))"

definition regulate_speed :: "ev3_tacho_motor_data \<Rightarrow> ev3_tacho_motor_data" where
  "regulate_speed s =
     (let (s6, power) = regulate_speed_terms s
      in if 0 = speed_reg_sp s6 then ev3_tacho_motor_set_power 0 s6
         else ev3_tacho_motor_set_power power s6)"

definition update_motor_speed_or_power :: "c_int \<Rightarrow> ev3_tacho_motor_data \<Rightarrow> ev3_tacho_motor_data" where
  "update_motor_speed_or_power percent s =
     (case regulation_mode s of
        TM_REGULATION_OFF \<Rightarrow>
          if TM_RUN_POSITION = run_mode s then
            ev3_tacho_motor_set_power
              (ramp_direction s * c_abs (c_sdiv (duty_cycle_sp s * percent) 100)) s
          else
            ev3_tacho_motor_set_power (c_sdiv (duty_cycle_sp s * percent) 100) s
      | TM_REGULATION_ON \<Rightarrow>
          if TM_RUN_POSITION = run_mode s then
            s\<lparr>speed_reg_sp :=
                ramp_direction s * c_abs (c_sdiv (pulses_per_second_sp s * percent) 100)\<rparr>
          else
            s\<lparr>speed_reg_sp := c_sdiv (pulses_per_second_sp s * percent) 100\<rparr>)"

definition regulate_position :: "ev3_tacho_motor_data \<Rightarrow> ev3_tacho_motor_data" where
  "regulate_position s =
     (let position_error = 0 - irq_tacho s;
          s1 = (if MOTOR_TYPE_MINITACHO = motor_type s \<or> MOTOR_TYPE_TACHO = motor_type s then
                  s\<lparr>pid_P := position_error * 400,
                    pid_I := c_sdiv (pid_I s * 99) 100 + c_sdiv position_error 1,
                    pid_D := c_sdiv ((position_error - pid_prev_position_error s) * 4) 2 * 2\<rparr>
                else s);
          s2 = s1\<lparr>pid_prev_position_error := position_error\<rparr>;
          power = c_sdiv (pid_P s2 + pid_I s2 + pid_D s2) 100
      in ev3_tacho_motor_set_power power s2)"

section \<open>The ramp profile engine\<close>

definition adjust_ramp_for_position :: "ev3_tacho_motor_data \<Rightarrow> ev3_tacho_motor_data" where
  "adjust_ramp_for_position s =
     (let ramp_down_time =
            (case regulation_mode s of
               TM_REGULATION_OFF \<Rightarrow> c_abs (c_sdiv (ramp_down_sp s * power_lvl s) 100)
             | TM_REGULATION_ON \<Rightarrow>
                 c_abs (c_sdiv (ramp_down_sp s * pulses_per_second s)
                               (MaxPulsesPerSec (motor_type s))));
          ramp_down_distance =
            c_abs (c_sdiv (pulses_per_second s * ramp_down_time * 7) (2000 * 10));
          freeze = (\<lambda>a. let b = a\<lparr>ramp_up_end := ramp_count a\<rparr>;
                             c = b\<lparr>ramp_down_end := ramp_count b + ramp_down_time\<rparr>
                         in c\<lparr>ramp_down_start := ramp_down_end c - ramp_down_sp c\<rparr>)
      in
      if 0 <s ramp_direction s then
        (if ramp_position_sp s - ramp_down_distance \<le>s tacho s + irq_tacho s
         then freeze s else s)
      else
        (if tacho s + irq_tacho s \<le>s ramp_position_sp s + ramp_down_distance
         then freeze s else s))"

definition calculate_ramp_progress :: "c_int \<Rightarrow> c_int \<Rightarrow> c_int" where
  "calculate_ramp_progress numerator denominator =
     (if denominator \<le>s numerator + 2 then 100
      else if 0 = denominator then 100
      else c_sdiv (numerator * 100) denominator)"

subsection \<open>The cases of the state switch\<close>

text \<open>
  Each case of the \<^verbatim>\<open>switch\<close> in the timer callback is a function from the state to the
  new state and the \<^verbatim>\<open>reprocess\<close> flag it leaves.
\<close>

text \<open>The two \<^verbatim>\<open>full\<close> markers, computed alike by both setup cases.\<close>

definition set_ramp_full :: "ev3_tacho_motor_data \<Rightarrow> ev3_tacho_motor_data" where
  "set_ramp_full s =
     (case regulation_mode s of
        TM_REGULATION_OFF \<Rightarrow>
          s\<lparr>ramp_up_full := c_sdiv (c_abs (duty_cycle_sp s) * ramp_up_sp s) 100,
            ramp_down_full := c_sdiv (c_abs (duty_cycle_sp s) * ramp_down_sp s) 100\<rparr>
      | TM_REGULATION_ON \<Rightarrow>
          s\<lparr>ramp_up_full := c_sdiv (c_abs (pulses_per_second_sp s) * ramp_up_sp s)
                                     (MaxPulsesPerSec (motor_type s)),
            ramp_down_full := c_sdiv (c_abs (pulses_per_second_sp s) * ramp_down_sp s)
                                       (MaxPulsesPerSec (motor_type s))\<rparr>)"

text \<open>\<^verbatim>\<open>TM_STATE_RUN_FOREVER\<close> falls through to \<^verbatim>\<open>TM_STATE_SETUP_RAMP_TIME\<close>.\<close>

definition case_setup_ramp_time :: "ev3_tacho_motor_data \<Rightarrow> ev3_tacho_motor_data \<times> bool" where
  "case_setup_ramp_time s =
     (let s1 = s\<lparr>ramp_up_start := 0, ramp_down_end := time_sp s\<rparr>;
          s2 = (if TM_RUN_FOREVER = run_mode s1
                then s1\<lparr>ramp_down_end := 60 * 60 * 1000\<rparr> else s1);
          s3 = set_ramp_full s2;
          s4 = (case regulation_mode s3 of
                  TM_REGULATION_OFF \<Rightarrow>
                    s3\<lparr>ramp_direction := (if 0 \<le>s duty_cycle_sp s3 then 1 else - 1)\<rparr>
                | TM_REGULATION_ON \<Rightarrow>
                    s3\<lparr>ramp_direction := (if 0 \<le>s pulses_per_second_sp s3 then 1 else - 1)\<rparr>);
          s5 = s4\<lparr>ramp_up_end := ramp_up_start s4 + ramp_up_full s4\<rparr>;
          s6 = s5\<lparr>ramp_down_start := ramp_down_end s5 - ramp_down_full s5\<rparr>;
          s7 = (if ramp_down_start s6 <s ramp_up_end s6 then
                  (let a = s6\<lparr>ramp_up_end :=
                               c_sdiv (time_sp s6 * ramp_up_sp s6)
                                      (ramp_up_sp s6 + ramp_down_sp s6)\<rparr>
                   in a\<lparr>ramp_down_start := ramp_up_end a\<rparr>)
                else s6)
      in (s7\<lparr>state := TM_STATE_SETUP_RAMP_REGULATION\<rparr>, True))"

definition case_setup_ramp_position :: "ev3_tacho_motor_data \<Rightarrow> ev3_tacho_motor_data \<times> bool" where
  "case_setup_ramp_position s =
     (let s1 = (if TM_POSITION_ABSOLUTE = position_mode s
                then s\<lparr>ramp_position_sp := position_sp s\<rparr>
                else s\<lparr>ramp_position_sp := ramp_position_sp s + position_sp s\<rparr>);
          s2 = s1\<lparr>ramp_direction :=
                    (if tacho s1 + irq_tacho s1 \<le>s ramp_position_sp s1 then 1 else - 1)\<rparr>;
          s3 = s2\<lparr>ramp_up_start := 0\<rparr>;
          s4 = set_ramp_full s3;
          s5 = s4\<lparr>ramp_up_end := ramp_up_start s4 + ramp_up_full s4\<rparr>;
          s6 = s5\<lparr>ramp_down_end := 60 * 60 * 1000, ramp_down_start := 60 * 60 * 1000\<rparr>
      in (s6\<lparr>state := TM_STATE_SETUP_RAMP_REGULATION\<rparr>, True))"

definition case_setup_ramp_regulation :: "ev3_tacho_motor_data \<Rightarrow> ev3_tacho_motor_data \<times> bool" where
  "case_setup_ramp_regulation s = (s\<lparr>ramp_count := 0, state := TM_STATE_RAMP_UP\<rparr>, True)"

definition case_ramp_up :: "ev3_tacho_motor_data \<Rightarrow> ev3_tacho_motor_data \<times> bool" where
  "case_ramp_up s =
     (let s1 = (if run_mode s = TM_RUN_POSITION then adjust_ramp_for_position s else s);
          (s2, reprocess) =
            (if ramp_up_end s1 \<le>s ramp_count s1
             then (s1\<lparr>state := TM_STATE_RAMP_CONST\<rparr>, True) else (s1, False));
          s3 = s2\<lparr>ramp_percent := calculate_ramp_progress (ramp_count s2) (ramp_up_full s2)\<rparr>
      in (update_motor_speed_or_power (ramp_percent s3) s3, reprocess))"

definition case_ramp_const :: "ev3_tacho_motor_data \<Rightarrow> ev3_tacho_motor_data \<times> bool" where
  "case_ramp_const s =
     (let (s1, reprocess) =
            (case run_mode s of
               TM_RUN_FOREVER \<Rightarrow>
                 (s\<lparr>ramp_down_start := ramp_count s,
                    ramp_down_end := ramp_count s
                       + c_sdiv (c_abs (duty_cycle_sp s) * ramp_down_sp s) 100\<rparr>, False)
             | TM_RUN_TIME \<Rightarrow>
                 (if ramp_down_start s \<le>s ramp_count s
                  then (s\<lparr>state := TM_STATE_RAMP_DOWN\<rparr>, True) else (s, False))
             | TM_RUN_POSITION \<Rightarrow>
                 (let a = adjust_ramp_for_position s
                  in if ramp_down_start a \<le>s ramp_count a
                     then (a\<lparr>state := TM_STATE_POSITION_RAMP_DOWN\<rparr>, True) else (a, False)))
      in (update_motor_speed_or_power (ramp_percent s1) s1, reprocess))"

definition case_ramp_down :: "ev3_tacho_motor_data \<Rightarrow> ev3_tacho_motor_data \<times> bool" where
  "case_ramp_down s =
     (let (s1, reprocess) =
            (if ramp_down_end s \<le>s ramp_count s
             then (s\<lparr>state := TM_STATE_STOP\<rparr>, True) else (s, False));
          s2 = s1\<lparr>ramp_percent :=
                    calculate_ramp_progress (ramp_down_end s1 - ramp_count s1) (ramp_down_full s1)\<rparr>
      in (update_motor_speed_or_power (ramp_percent s2) s2, reprocess))"

text \<open>\<^verbatim>\<open>TM_STATE_POSITION_RAMP_DOWN\<close> adjusts the down window and falls through to
  \<^verbatim>\<open>TM_STATE_RAMP_DOWN\<close>.\<close>

definition case_position_ramp_down :: "ev3_tacho_motor_data \<Rightarrow> ev3_tacho_motor_data \<times> bool" where
  "case_position_ramp_down s =
     (let s1 =
            (if 0 <s ramp_direction s then
               (if ramp_position_sp s \<le>s tacho s + irq_tacho s then
                  s\<lparr>ramp_down_end := ramp_count s\<rparr>
                else if ramp_down_end s \<le>s ramp_count s then
                  s\<lparr>ramp_down_end := ramp_count s + 100\<rparr>
                else s)
             else
               (if tacho s + irq_tacho s \<le>s ramp_position_sp s then
                  s\<lparr>ramp_down_end := ramp_count s\<rparr>
                else if ramp_down_end s \<le>s ramp_count s then
                  s\<lparr>ramp_down_end := ramp_count s + 100\<rparr>
                else s));
          s2 = s1\<lparr>ramp_down_start := ramp_down_end s1 - ramp_down_sp s1\<rparr>
      in case_ramp_down s2)"

definition case_stop :: "ev3_tacho_motor_data \<Rightarrow> ev3_tacho_motor_data \<times> bool" where
  "case_stop s =
     (let s1 = (if run_mode s = TM_RUN_POSITION then
                  (let a = s\<lparr>irq_tacho := (tacho s + irq_tacho s) - ramp_position_sp s\<rparr>
                   in a\<lparr>tacho := ramp_position_sp a\<rparr>)
                else
                  (let a = s\<lparr>tacho := tacho s + irq_tacho s\<rparr>
                   in a\<lparr>irq_tacho := 0\<rparr>));
          s2 = s1\<lparr>speed_reg_sp := 0\<rparr>;
          s3 = ev3_tacho_motor_set_power 0 s2;
          s4 = s3\<lparr>pid_P := 0, pid_I := 0, pid_D := 0\<rparr>
      in (s4\<lparr>state := TM_STATE_IDLE\<rparr>, True))"

definition case_idle :: "ev3_tacho_motor_data \<Rightarrow> ev3_tacho_motor_data \<times> bool" where
  "case_idle s = (emit Schedule_notify_state_change (s\<lparr>run := 0\<rparr>), False)"

text \<open>One pass through the body of the \<^verbatim>\<open>while (reprocess)\<close> loop.\<close>

definition tm_step :: "ev3_tacho_motor_data \<Rightarrow> ev3_tacho_motor_data \<times> bool" where
  "tm_step s =
     (case state s of
        TM_STATE_RUN_FOREVER \<Rightarrow> case_setup_ramp_time s
      | TM_STATE_SETUP_RAMP_TIME \<Rightarrow> case_setup_ramp_time s
      | TM_STATE_SETUP_RAMP_POSITION \<Rightarrow> case_setup_ramp_position s
      | TM_STATE_SETUP_RAMP_REGULATION \<Rightarrow> case_setup_ramp_regulation s
      | TM_STATE_RAMP_UP \<Rightarrow> case_ramp_up s
      | TM_STATE_RAMP_CONST \<Rightarrow> case_ramp_const s
      | TM_STATE_POSITION_RAMP_DOWN \<Rightarrow> case_position_ramp_down s
      | TM_STATE_RAMP_DOWN \<Rightarrow> case_ramp_down s
      | TM_STATE_STOP \<Rightarrow> case_stop s
      | TM_STATE_IDLE \<Rightarrow> case_idle s)"

text \<open>The position of a state in the order the machine moves through: every pass that
  asks for reprocessing moves to a state of smaller rank, so the loop ends.\<close>

fun state_rank :: "tm_state \<Rightarrow> nat" where
  "state_rank TM_STATE_RUN_FOREVER = 7"
| "state_rank TM_STATE_SETUP_RAMP_TIME = 7"
| "state_rank TM_STATE_SETUP_RAMP_POSITION = 7"
| "state_rank TM_STATE_SETUP_RAMP_REGULATION = 6"
| "state_rank TM_STATE_RAMP_UP = 5"
| "state_rank TM_STATE_RAMP_CONST = 4"
| "state_rank TM_STATE_POSITION_RAMP_DOWN = 3"
| "state_rank TM_STATE_RAMP_DOWN = 2"
| "state_rank TM_STATE_STOP = 1"
| "state_rank TM_STATE_IDLE = 0"

text \<open>The loop \<^verbatim>\<open>while (reprocess) { reprocess = 0; switch (state) ... }\<close>, entered with
  \<^verbatim>\<open>reprocess\<close> true.\<close>

function tm_loop :: "ev3_tacho_motor_data \<Rightarrow> ev3_tacho_motor_data" where
  "tm_loop s = (case tm_step s of (s', reprocess) \<Rightarrow> if reprocess then tm_loop s' else s')"
  by pat_completeness auto
termination
proof (relation "measure (\<lambda>s. state_rank (state s))")
  show "wf (measure (\<lambda>s. state_rank (state s)))" by simp
next
  fix s s' :: ev3_tacho_motor_data and reprocess :: bool
  assume step: "(s', reprocess) = tm_step s" and again: reprocess
  have out_st: "state (ev3_tacho_motor_update_output a) = state a" for a
    by (simp add: ev3_tacho_motor_update_output_def emit_def Let_def split: tm_stop_mode.split)
  have pow_st: "state (ev3_tacho_motor_set_power p a) = state a" for p a
    by (simp add: ev3_tacho_motor_set_power_def out_st)
  have mot_st: "state (update_motor_speed_or_power p a) = state a" for p a
    by (simp add: update_motor_speed_or_power_def pow_st split: tm_regulation_mode.split)
  have adj_st: "state (adjust_ramp_for_position a) = state a" for a
    by (simp add: adjust_ramp_for_position_def Let_def)
  have "state_rank (state s') < state_rank (state s)"
    using step [symmetric] again
    by (cases "state s")
       (auto simp: tm_step_def case_setup_ramp_time_def case_setup_ramp_position_def
          case_setup_ramp_regulation_def case_ramp_up_def case_ramp_const_def
          case_position_ramp_down_def case_ramp_down_def case_stop_def case_idle_def
          Let_def mot_st adj_st pow_st
          split: if_splits tm_run_mode.splits prod.splits)
  then show "(s', s) \<in> measure (\<lambda>s. state_rank (state s))" by simp
qed

declare tm_loop.simps [simp del]

subsection \<open>The timer callback\<close>

text \<open>The switch in front of the loop, which advances the ramp counter.\<close>

definition advance_ramp_count :: "ev3_tacho_motor_data \<Rightarrow> ev3_tacho_motor_data" where
  "advance_ramp_count s =
     (case state s of
        TM_STATE_RAMP_UP \<Rightarrow> s\<lparr>ramp_count := ramp_count s + 2\<rparr>
      | TM_STATE_RAMP_CONST \<Rightarrow> s\<lparr>ramp_count := ramp_count s + 2\<rparr>
      | TM_STATE_POSITION_RAMP_DOWN \<Rightarrow> s\<lparr>ramp_count := ramp_count s + 2\<rparr>
      | TM_STATE_RAMP_DOWN \<Rightarrow> s\<lparr>ramp_count := ramp_count s + 2\<rparr>
      | _ \<Rightarrow> s)"

text \<open>The code after the label \<^verbatim>\<open>no_run\<close>.\<close>

definition no_run :: "ev3_tacho_motor_data \<Rightarrow> ev3_tacho_motor_data" where
  "no_run s =
     (if run s = 0 then
        (case stop_mode s of
           TM_STOP_COAST \<Rightarrow> emit (Set_command DC_MOTOR_COMMAND_COAST) s
         | TM_STOP_BRAKE \<Rightarrow> emit (Set_command DC_MOTOR_COMMAND_BRAKE) s
         | TM_STOP_HOLD \<Rightarrow> regulate_position s)
      else s)"

text \<open>\<^verbatim>\<open>ev3_tacho_motor_timer_callback\<close>; \<open>now\<close> is the timer value that
  \<^verbatim>\<open>calculate_speed\<close> reads.\<close>

definition ev3_tacho_motor_timer_callback :: "c_int \<Rightarrow> ev3_tacho_motor_data \<Rightarrow> ev3_tacho_motor_data" where
  "ev3_tacho_motor_timer_callback now s =
     (let (s1, speed_updated) = calculate_speed now s
      in if 0 = run s1 then no_run s1
         else
           (let s2 = advance_ramp_count s1;
                s3 = tm_loop s2;
                s4 = (if run s3 \<noteq> 0 \<and> TM_REGULATION_ON = regulation_mode s3
                      then regulate_speed s3 else s3)
            in no_run s4))"

section \<open>The accessors of the function-pointer table\<close>

definition ev3_tacho_motor_get_type :: "ev3_tacho_motor_data \<Rightarrow> tm_type" where
  "ev3_tacho_motor_get_type s =
     (if motor_type s = MOTOR_TYPE_MINITACHO then TM_TYPE_MINITACHO
      else if motor_type s = MOTOR_TYPE_TACHO then TM_TYPE_TACHO
      else TM_TYPE_TACHO)"

definition ev3_tacho_motor_set_type :: "tm_type \<Rightarrow> ev3_tacho_motor_data \<Rightarrow> ev3_tacho_motor_data" where
  "ev3_tacho_motor_set_type ty s =
     (if ty = TM_TYPE_MINITACHO then s\<lparr>motor_type := MOTOR_TYPE_MINITACHO\<rparr>
      else if ty = TM_TYPE_TACHO then s\<lparr>motor_type := MOTOR_TYPE_TACHO\<rparr>
      else s\<lparr>motor_type := MOTOR_TYPE_TACHO\<rparr>)"

definition ev3_tacho_motor_get_position :: "ev3_tacho_motor_data \<Rightarrow> c_int" where
  "ev3_tacho_motor_get_position s = tacho s + irq_tacho s"

definition ev3_tacho_motor_set_position :: "c_int \<Rightarrow> ev3_tacho_motor_data \<Rightarrow> ev3_tacho_motor_data" where
  "ev3_tacho_motor_set_position position s =
     s\<lparr>irq_tacho := 0, tacho := position, ramp_position_sp := position\<rparr>"

definition ev3_tacho_motor_get_duty_cycle :: "ev3_tacho_motor_data \<Rightarrow> c_int" where
  "ev3_tacho_motor_get_duty_cycle s = power_lvl s"

definition ev3_tacho_motor_get_state :: "ev3_tacho_motor_data \<Rightarrow> tm_state" where
  "ev3_tacho_motor_get_state s = state s"

definition ev3_tacho_motor_get_pulses_per_second :: "ev3_tacho_motor_data \<Rightarrow> c_int" where
  "ev3_tacho_motor_get_pulses_per_second s = pulses_per_second s"

definition ev3_tacho_motor_set_duty_cycle_sp :: "c_int \<Rightarrow> ev3_tacho_motor_data \<Rightarrow> ev3_tacho_motor_data" where
  "ev3_tacho_motor_set_duty_cycle_sp v s = s\<lparr>duty_cycle_sp := v\<rparr>"

definition ev3_tacho_motor_set_pulses_per_second_sp :: "c_int \<Rightarrow> ev3_tacho_motor_data \<Rightarrow> ev3_tacho_motor_data" where
  "ev3_tacho_motor_set_pulses_per_second_sp v s = s\<lparr>pulses_per_second_sp := v\<rparr>"

definition ev3_tacho_motor_set_time_sp :: "c_int \<Rightarrow> ev3_tacho_motor_data \<Rightarrow> ev3_tacho_motor_data" where
  "ev3_tacho_motor_set_time_sp v s = s\<lparr>time_sp := v\<rparr>"

definition ev3_tacho_motor_set_position_sp :: "c_int \<Rightarrow> ev3_tacho_motor_data \<Rightarrow> ev3_tacho_motor_data" where
  "ev3_tacho_motor_set_position_sp v s = s\<lparr>position_sp := v\<rparr>"

definition ev3_tacho_motor_set_regulation_mode :: "tm_regulation_mode \<Rightarrow> ev3_tacho_motor_data \<Rightarrow> ev3_tacho_motor_data" where
  "ev3_tacho_motor_set_regulation_mode m s = s\<lparr>regulation_mode := m\<rparr>"

definition ev3_tacho_motor_set_position_mode :: "tm_position_mode \<Rightarrow> ev3_tacho_motor_data \<Rightarrow> ev3_tacho_motor_data" where
  "ev3_tacho_motor_set_position_mode m s = s\<lparr>position_mode := m\<rparr>"

definition ev3_tacho_motor_set_stop_mode :: "tm_stop_mode \<Rightarrow> ev3_tacho_motor_data \<Rightarrow> ev3_tacho_motor_data" where
  "ev3_tacho_motor_set_stop_mode m s = s\<lparr>stop_mode := m\<rparr>"

definition ev3_tacho_motor_set_polarity_mode :: "dc_motor_polarity \<Rightarrow> ev3_tacho_motor_data \<Rightarrow> ev3_tacho_motor_data" where
  "ev3_tacho_motor_set_polarity_mode m s = ev3_tacho_motor_update_output (s\<lparr>polarity_mode := m\<rparr>)"

definition ev3_tacho_motor_set_encoder_mode :: "dc_motor_polarity \<Rightarrow> ev3_tacho_motor_data \<Rightarrow> ev3_tacho_motor_data" where
  "ev3_tacho_motor_set_encoder_mode m s = s\<lparr>encoder_mode := m\<rparr>"

definition ev3_tacho_motor_set_ramp_up_sp :: "c_int \<Rightarrow> ev3_tacho_motor_data \<Rightarrow> ev3_tacho_motor_data" where
  "ev3_tacho_motor_set_ramp_up_sp v s = s\<lparr>ramp_up_sp := v\<rparr>"

definition ev3_tacho_motor_set_ramp_down_sp :: "c_int \<Rightarrow> ev3_tacho_motor_data \<Rightarrow> ev3_tacho_motor_data" where
  "ev3_tacho_motor_set_ramp_down_sp v s = s\<lparr>ramp_down_sp := v\<rparr>"

definition ev3_tacho_motor_set_speed_regulation_P :: "c_int \<Rightarrow> ev3_tacho_motor_data \<Rightarrow> ev3_tacho_motor_data" where
  "ev3_tacho_motor_set_speed_regulation_P v s = s\<lparr>pid_speed_regulation_P := v\<rparr>"

definition ev3_tacho_motor_set_speed_regulation_I :: "c_int \<Rightarrow> ev3_tacho_motor_data \<Rightarrow> ev3_tacho_motor_data" where
  "ev3_tacho_motor_set_speed_regulation_I v s = s\<lparr>pid_speed_regulation_I := v\<rparr>"

definition ev3_tacho_motor_set_speed_regulation_D :: "c_int \<Rightarrow> ev3_tacho_motor_data \<Rightarrow> ev3_tacho_motor_data" where
  "ev3_tacho_motor_set_speed_regulation_D v s = s\<lparr>pid_speed_regulation_D := v\<rparr>"

definition ev3_tacho_motor_set_speed_regulation_K :: "c_int \<Rightarrow> ev3_tacho_motor_data \<Rightarrow> ev3_tacho_motor_data" where
  "ev3_tacho_motor_set_speed_regulation_K v s = s\<lparr>pid_speed_regulation_K := v\<rparr>"

definition ev3_tacho_motor_set_run_mode :: "tm_run_mode \<Rightarrow> ev3_tacho_motor_data \<Rightarrow> ev3_tacho_motor_data" where
  "ev3_tacho_motor_set_run_mode m s = s\<lparr>run_mode := m\<rparr>"

definition ev3_tacho_motor_get_run :: "ev3_tacho_motor_data \<Rightarrow> c_int" where
  "ev3_tacho_motor_get_run s = run s"

definition ev3_tacho_motor_set_run :: "c_int \<Rightarrow> ev3_tacho_motor_data \<Rightarrow> ev3_tacho_motor_data" where
  "ev3_tacho_motor_set_run r s =
     (let s1 =
        (if 0 \<noteq> estop s then s\<lparr>state := TM_STATE_STOP\<rparr>
         else if 0 = r \<and> state s \<noteq> TM_STATE_IDLE then
           (let a = s\<lparr>ramp_down_start := ramp_count s, ramp_down_end := ramp_down_sp s\<rparr>
            in case run_mode a of
                 TM_RUN_FOREVER \<Rightarrow> a\<lparr>state := TM_STATE_RAMP_DOWN\<rparr>
               | TM_RUN_TIME \<Rightarrow> a\<lparr>state := TM_STATE_RAMP_DOWN\<rparr>
               | TM_RUN_POSITION \<Rightarrow> a\<lparr>state := TM_STATE_STOP\<rparr>)
         else if 0 \<noteq> r \<and> state s = TM_STATE_IDLE then
           (case run_mode s of
              TM_RUN_FOREVER \<Rightarrow> s\<lparr>state := TM_STATE_RUN_FOREVER\<rparr>
            | TM_RUN_TIME \<Rightarrow> s\<lparr>state := TM_STATE_SETUP_RAMP_TIME\<rparr>
            | TM_RUN_POSITION \<Rightarrow> s\<lparr>state := TM_STATE_SETUP_RAMP_POSITION\<rparr>)
         else if 0 = r then s\<lparr>state := TM_STATE_STOP\<rparr>
         else s)
      in s1\<lparr>run := 1\<rparr>)"

definition ev3_tacho_motor_get_estop :: "ev3_tacho_motor_data \<Rightarrow> c_int" where
  "ev3_tacho_motor_get_estop s = estop s"

text \<open>
  The loop \<^verbatim>\<open>while (0 == estop) get_random_bytes(&estop, sizeof(estop))\<close>. The random
  source is the sequence \<open>rnd\<close> of the values that successive calls of
  \<^verbatim>\<open>get_random_bytes\<close> store; \<open>i\<close> counts the calls made. On a source that only ever
  yields 0 the loop does not end, and the result is \<open>None\<close>.
\<close>

partial_function (option) draw_estop :: "(nat \<Rightarrow> c_int) \<Rightarrow> nat \<Rightarrow> c_int \<Rightarrow> c_int option" where
  "draw_estop rnd i e = (if 0 = e then draw_estop rnd (Suc i) (rnd i) else Some e)"

definition ev3_tacho_motor_set_estop ::
  "(nat \<Rightarrow> c_int) \<Rightarrow> c_int \<Rightarrow> ev3_tacho_motor_data \<Rightarrow> ev3_tacho_motor_data option" where
  "ev3_tacho_motor_set_estop rnd v s =
     (if 0 = estop s then
        (let s1 = s\<lparr>stop_mode := TM_STOP_COAST, state := TM_STATE_STOP\<rparr>
         in case draw_estop rnd 0 (estop s1) of
              None \<Rightarrow> None
            | Some k \<Rightarrow> Some (s1\<lparr>estop := k\<rparr>))
      else if v = estop s then Some (s\<lparr>estop := 0\<rparr>)
      else Some s)"

text \<open>\<^verbatim>\<open>ev3_tacho_motor_set_reset\<close>: the written value is ignored; \<open>mid\<close> is the motor type id
  of the platform data.\<close>

definition ev3_tacho_motor_set_reset :: "motor_type_id \<Rightarrow> c_int \<Rightarrow> ev3_tacho_motor_data \<Rightarrow> ev3_tacho_motor_data" where
  "ev3_tacho_motor_set_reset mid v s = ev3_tacho_motor_reset mid s"

section \<open>Direction decoding\<close>

text \<open>
  The truth table as the specification words it: the output polarity and the encoder
  polarity combine to "normal" when they agree and to "inverted" when they differ. A
  normal combination keeps the direction that the comparison of the two lines gives, an
  inverted one reverses it. The handler compares the level of the interrupt line with
  the negated level of the direction line, and equality means forward.
\<close>

fun spec_truth_table :: "dc_motor_polarity \<Rightarrow> dc_motor_polarity \<Rightarrow> dc_motor_polarity" where
  "spec_truth_table DC_MOTOR_POLARITY_NORMAL DC_MOTOR_POLARITY_NORMAL = DC_MOTOR_POLARITY_NORMAL"
| "spec_truth_table DC_MOTOR_POLARITY_NORMAL DC_MOTOR_POLARITY_INVERTED = DC_MOTOR_POLARITY_INVERTED"
| "spec_truth_table DC_MOTOR_POLARITY_INVERTED DC_MOTOR_POLARITY_NORMAL = DC_MOTOR_POLARITY_INVERTED"
| "spec_truth_table DC_MOTOR_POLARITY_INVERTED DC_MOTOR_POLARITY_INVERTED = DC_MOTOR_POLARITY_NORMAL"

definition spec_line_comparison :: "bool \<Rightarrow> bool \<Rightarrow> ev3_tacho_motor_command" where
  "spec_line_comparison int_level dir_level =
     (if int_level = (\<not> dir_level) then FORWARD else REVERSE)"

fun spec_apply_polarity :: "dc_motor_polarity \<Rightarrow> ev3_tacho_motor_command \<Rightarrow> ev3_tacho_motor_command" where
  "spec_apply_polarity DC_MOTOR_POLARITY_NORMAL d = d"
| "spec_apply_polarity DC_MOTOR_POLARITY_INVERTED FORWARD = REVERSE"
| "spec_apply_polarity DC_MOTOR_POLARITY_INVERTED REVERSE = FORWARD"
| "spec_apply_polarity DC_MOTOR_POLARITY_INVERTED d = d"

section \<open>The operations of the driver and the states it reaches\<close>

text \<open>
  Everything that changes the device structure after the probe: the timer callback, the
  interrupt handler and the setters of the function-pointer table. \<open>apply_op\<close> runs one
  of them; \<open>mid\<close> is the motor type id of the platform data, which the reset reads. The
  result is \<open>None\<close> only when the emergency-stop write does not return.
\<close>

datatype tm_op =
    Op_timer c_int
  | Op_isr bool bool c_int
  | Op_set_type tm_type
  | Op_set_position c_int
  | Op_set_duty_cycle_sp c_int
  | Op_set_pulses_per_second_sp c_int
  | Op_set_time_sp c_int
  | Op_set_position_sp c_int
  | Op_set_run_mode tm_run_mode
  | Op_set_regulation_mode tm_regulation_mode
  | Op_set_stop_mode tm_stop_mode
  | Op_set_position_mode tm_position_mode
  | Op_set_polarity_mode dc_motor_polarity
  | Op_set_encoder_mode dc_motor_polarity
  | Op_set_ramp_up_sp c_int
  | Op_set_ramp_down_sp c_int
  | Op_set_speed_regulation_P c_int
  | Op_set_speed_regulation_I c_int
  | Op_set_speed_regulation_D c_int
  | Op_set_speed_regulation_K c_int
  | Op_set_run c_int
  | Op_set_estop "nat \<Rightarrow> c_int" c_int
  | Op_set_reset c_int

fun apply_op :: "motor_type_id \<Rightarrow> tm_op \<Rightarrow> ev3_tacho_motor_data \<Rightarrow> ev3_tacho_motor_data option" where
  "apply_op mid (Op_timer now) s = Some (ev3_tacho_motor_timer_callback now s)"
| "apply_op mid (Op_isr int_level dir_level timer) s =
     Some (tacho_motor_isr int_level dir_level timer s)"
| "apply_op mid (Op_set_type ty) s = Some (ev3_tacho_motor_set_type ty s)"
| "apply_op mid (Op_set_position v) s = Some (ev3_tacho_motor_set_position v s)"
| "apply_op mid (Op_set_duty_cycle_sp v) s = Some (ev3_tacho_motor_set_duty_cycle_sp v s)"
| "apply_op mid (Op_set_pulses_per_second_sp v) s =
     Some (ev3_tacho_motor_set_pulses_per_second_sp v s)"
| "apply_op mid (Op_set_time_sp v) s = Some (ev3_tacho_motor_set_time_sp v s)"
| "apply_op mid (Op_set_position_sp v) s = Some (ev3_tacho_motor_set_position_sp v s)"
| "apply_op mid (Op_set_run_mode m) s = Some (ev3_tacho_motor_set_run_mode m s)"
| "apply_op mid (Op_set_regulation_mode m) s = Some (ev3_tacho_motor_set_regulation_mode m s)"
| "apply_op mid (Op_set_stop_mode m) s = Some (ev3_tacho_motor_set_stop_mode m s)"
| "apply_op mid (Op_set_position_mode m) s = Some (ev3_tacho_motor_set_position_mode m s)"
| "apply_op mid (Op_set_polarity_mode m) s = Some (ev3_tacho_motor_set_polarity_mode m s)"
| "apply_op mid (Op_set_encoder_mode m) s = Some (ev3_tacho_motor_set_encoder_mode m s)"
| "apply_op mid (Op_set_ramp_up_sp v) s = Some (ev3_tacho_motor_set_ramp_up_sp v s)"
| "apply_op mid (Op_set_ramp_down_sp v) s = Some (ev3_tacho_motor_set_ramp_down_sp v s)"
| "apply_op mid (Op_set_speed_regulation_P v) s =
     Some (ev3_tacho_motor_set_speed_regulation_P v s)"
| "apply_op mid (Op_set_speed_regulation_I v) s =
     Some (ev3_tacho_motor_set_speed_regulation_I v s)"
| "apply_op mid (Op_set_speed_regulation_D v) s =
     Some (ev3_tacho_motor_set_speed_regulation_D v s)"
| "apply_op mid (Op_set_speed_regulation_K v) s =
     Some (ev3_tacho_motor_set_speed_regulation_K v s)"
| "apply_op mid (Op_set_run v) s = Some (ev3_tacho_motor_set_run v s)"
| "apply_op mid (Op_set_estop rnd v) s = ev3_tacho_motor_set_estop rnd v s"
| "apply_op mid (Op_set_reset v) s = Some (ev3_tacho_motor_set_reset mid v s)"

text \<open>A sequence of operations, run from a given state.\<close>

fun run_ops :: "motor_type_id \<Rightarrow> tm_op list \<Rightarrow> ev3_tacho_motor_data \<Rightarrow> ev3_tacho_motor_data option" where
  "run_ops mid [] s = Some s"
| "run_ops mid (x # xs) s =
     (case apply_op mid x s of None \<Rightarrow> None | Some s' \<Rightarrow> run_ops mid xs s')"

text \<open>The states of a device with motor type id \<open>mid\<close>: those that a sequence of
  operations leads to from the state the probe leaves.\<close>

definition reachable :: "motor_type_id \<Rightarrow> ev3_tacho_motor_data \<Rightarrow> bool" where
  "reachable mid s = (\<exists>ops. run_ops mid ops (probe_data mid) = Some s)"

text \<open>The states in which the timer callback advances the ramp counter, and the setup
  states, from which the machine passes through \<^verbatim>\<open>TM_STATE_SETUP_RAMP_REGULATION\<close>.\<close>

definition ramp_states :: "tm_state set" where
  "ramp_states =
     {TM_STATE_RAMP_UP, TM_STATE_RAMP_CONST, TM_STATE_POSITION_RAMP_DOWN, TM_STATE_RAMP_DOWN}"

definition setup_states :: "tm_state set" where
  "setup_states =
     {TM_STATE_RUN_FOREVER, TM_STATE_SETUP_RAMP_TIME, TM_STATE_SETUP_RAMP_POSITION,
      TM_STATE_SETUP_RAMP_REGULATION}"

text \<open>What holds in every reachable state: a cleared run flag goes with the states Idle
  and Stop only, the field \<^verbatim>\<open>speed\<close> is 0 (the source never assigns it outside the
  reset), and the ring has its 128 slots with the head inside.\<close>

definition state_ok :: "ev3_tacho_motor_data \<Rightarrow> bool" where
  "state_ok s =
     ((run s = 0 \<longrightarrow> state s = TM_STATE_IDLE \<or> state s = TM_STATE_STOP)
      \<and> speed s = 0
      \<and> length (tacho_samples s) = 128
      \<and> tacho_samples_head s < 128)"

section \<open>Noise rejection in the interrupt handler\<close>

text \<open>The change the handler applies to the live position for a recorded direction:
  \<^verbatim>\<open>if (FORWARD == run_direction) irq_tacho++; else irq_tacho--;\<close>\<close>

definition dir_step :: "ev3_tacho_motor_command \<Rightarrow> c_int" where
  "dir_step d = (if FORWARD = d then 1 else - 1)"

section \<open>Anti-windup in the speed regulator\<close>

text \<open>
  Driving the regulator for a number of ticks, as the testable property of the
  specification describes it: on each tick the ramp engine has stored the setpoint \<open>sp\<close>
  and the estimator the measured speed \<open>v\<close> of that tick, and \<open>regulate_speed\<close> runs. The
  result is the final state and the power computed on each tick (the local variable
  \<^verbatim>\<open>power\<close>), first tick first.
\<close>

fun drive_speed_regulator ::
  "c_int \<Rightarrow> c_int list \<Rightarrow> ev3_tacho_motor_data \<Rightarrow> ev3_tacho_motor_data \<times> c_int list" where
  "drive_speed_regulator sp [] s = (s, [])"
| "drive_speed_regulator sp (v # vs) s =
     (let s0 = s\<lparr>speed_reg_sp := sp, pulses_per_second := v\<rparr>;
          power = snd (regulate_speed_terms s0);
          (s', powers) = drive_speed_regulator sp vs (regulate_speed s0)
      in (s', power # powers))"

section \<open>The run-forever scenario\<close>

text \<open>
  The scenario of the specification: after the probe, duty-cycle setpoint 50 and ramp-up
  setpoint 500 ms are written and the run is started; the reset has left run mode
  RunForever, regulation off and every other setpoint 0. From then on timer ticks and
  encoder edges arrive in any order, each with the timer value it reads.
\<close>

definition scenario_start :: "motor_type_id \<Rightarrow> ev3_tacho_motor_data" where
  "scenario_start mid =
     ev3_tacho_motor_set_run 1
       (ev3_tacho_motor_set_ramp_up_sp 500
          (ev3_tacho_motor_set_duty_cycle_sp 50 (probe_data mid)))"

datatype event = Tick c_int | Edge bool bool c_int

fun run_events :: "event list \<Rightarrow> ev3_tacho_motor_data \<Rightarrow> ev3_tacho_motor_data" where
  "run_events [] s = s"
| "run_events (Tick now # evs) s = run_events evs (ev3_tacho_motor_timer_callback now s)"
| "run_events (Edge int_level dir_level timer # evs) s =
     run_events evs (tacho_motor_isr int_level dir_level timer s)"

fun ticks_in :: "event list \<Rightarrow> nat" where
  "ticks_in [] = 0"
| "ticks_in (Tick now # evs) = Suc (ticks_in evs)"
| "ticks_in (Edge int_level dir_level timer # evs) = ticks_in evs"

text \<open>\<open>n\<close> ticks without encoder edges, 2 ms apart at the timer rate of 33 MHz, that
  is 66000 timer counts from one tick to the next.\<close>

definition ticks_2ms :: "nat \<Rightarrow> event list" where
  "ticks_2ms n = map (\<lambda>k. Tick (66000 * of_nat k)) [1..<Suc n]"

text \<open>The fields the ramp of this scenario depends on.\<close>

definition ramp_cfg where
  "ramp_cfg s =
     (run s, state s, run_mode s, regulation_mode s, duty_cycle_sp s, ramp_up_sp s,
      ramp_down_sp s, time_sp s, ramp_up_full s, ramp_up_end s, ramp_count s, ramp_percent s)"

text \<open>The three phases of the scenario: started and not yet ticked; ramping up with the
  counter at \<open>2 * j\<close> (after tick \<open>j + 1\<close>); at the setpoint.\<close>

definition started :: "ev3_tacho_motor_data \<Rightarrow> bool" where
  "started s =
     (run s \<noteq> 0 \<and> state s = TM_STATE_RUN_FOREVER \<and> run_mode s = TM_RUN_FOREVER
      \<and> regulation_mode s = TM_REGULATION_OFF \<and> duty_cycle_sp s = 50
      \<and> ramp_up_sp s = 500 \<and> ramp_down_sp s = 0 \<and> power_lvl s = 0)"

definition ramping_up :: "nat \<Rightarrow> ev3_tacho_motor_data \<Rightarrow> bool" where
  "ramping_up j s =
     (run s \<noteq> 0 \<and> state s = TM_STATE_RAMP_UP \<and> run_mode s = TM_RUN_FOREVER
      \<and> regulation_mode s = TM_REGULATION_OFF \<and> duty_cycle_sp s = 50
      \<and> ramp_up_full s = 250 \<and> ramp_up_end s = 250
      \<and> ramp_count s = of_nat (2 * j)
      \<and> ramp_percent s = calculate_ramp_progress (of_nat (2 * j)) 250
      \<and> (ramp_percent s = 100 \<longrightarrow> power_lvl s = 50))"

definition at_setpoint :: "ev3_tacho_motor_data \<Rightarrow> bool" where
  "at_setpoint s =
     (run s \<noteq> 0 \<and> state s = TM_STATE_RAMP_CONST \<and> run_mode s = TM_RUN_FOREVER
      \<and> regulation_mode s = TM_REGULATION_OFF \<and> duty_cycle_sp s = 50
      \<and> ramp_percent s = 100 \<and> power_lvl s = 50)"

text \<open>The phase after \<open>k\<close> ticks.\<close>

definition phase :: "nat \<Rightarrow> ev3_tacho_motor_data \<Rightarrow> bool" where
  "phase k s =
     (if k = 0 then started s
      else if k \<le> 125 then ramping_up (k - 1) s
      else at_setpoint s)"

chapter \<open>Properties\<close>

section \<open>The state field across the switch\<close>

text \<open>The callees of the switch leave the state field alone; with that, every pass that
  sets \<^verbatim>\<open>reprocess\<close> lowers the rank.\<close>

lemma update_output_state: "state (ev3_tacho_motor_update_output s) = state s"
  by (simp add: ev3_tacho_motor_update_output_def emit_def Let_def split: tm_stop_mode.split)

lemma set_power_state: "state (ev3_tacho_motor_set_power p s) = state s"
  by (simp add: ev3_tacho_motor_set_power_def update_output_state)

lemma update_motor_state: "state (update_motor_speed_or_power p s) = state s"
  by (simp add: update_motor_speed_or_power_def set_power_state split: tm_regulation_mode.split)

lemma adjust_ramp_state: "state (adjust_ramp_for_position s) = state s"
  by (simp add: adjust_ramp_for_position_def Let_def)

lemma tm_step_rank:
  "tm_step s = (s', True) \<Longrightarrow> state_rank (state s') < state_rank (state s)"
  by (cases "state s")
     (auto simp: tm_step_def case_setup_ramp_time_def case_setup_ramp_position_def
        case_setup_ramp_regulation_def case_ramp_up_def case_ramp_const_def
        case_position_ramp_down_def case_ramp_down_def case_stop_def case_idle_def
        Let_def update_motor_state adjust_ramp_state set_power_state
        split: if_splits tm_run_mode.splits prod.splits)

section \<open>Arithmetic of the 32-bit integers\<close>

text \<open>Reading the results of the wrapping operations as integers: each agrees with the
  mathematical result whenever that result fits into 32 bits.\<close>

lemma sint_word_of_int_c: "- (2 ^ 31) \<le> k \<Longrightarrow> k < 2 ^ 31 \<Longrightarrow> sint (word_of_int k :: c_int) = k"
  by (simp add: sint_sbintrunc' signed_take_bit_int_eq_self)

lemma sint_add_c:
  "- (2 ^ 31) \<le> sint a + sint b \<Longrightarrow> sint a + sint b < 2 ^ 31 \<Longrightarrow> sint (a + b :: c_int) = sint a + sint b"
  by (simp add: sint_word_ariths word_size signed_take_bit_int_eq_self)

lemma sint_diff_c:
  "- (2 ^ 31) \<le> sint a - sint b \<Longrightarrow> sint a - sint b < 2 ^ 31 \<Longrightarrow> sint (a - b :: c_int) = sint a - sint b"
  by (simp add: sint_word_ariths word_size signed_take_bit_int_eq_self)

lemma sint_mult_c:
  "- (2 ^ 31) \<le> sint a * sint b \<Longrightarrow> sint a * sint b < 2 ^ 31 \<Longrightarrow> sint (a * b :: c_int) = sint a * sint b"
  by (simp add: sint_word_ariths word_size signed_take_bit_int_eq_self)

lemma sint_c_sdiv:
  "\<not> (sint a = - (2 ^ 31) \<and> sint b = - 1) \<Longrightarrow> sint (c_sdiv a b) = sint a sdiv sint b"
proof -
  assume h: "\<not> (sint a = - (2 ^ 31) \<and> sint b = - 1)"
  have r: "sint a sdiv sint b \<in> {- \<bar>sint a\<bar>..\<bar>sint a\<bar>}" by (rule sdiv_int_range)
  have la: "- (2 ^ 31) \<le> sint a" and ua: "sint a < 2 ^ 31"
    using sint_ge [of a] sint_lt [of a] by simp_all
  have "sint a sdiv sint b < 2 ^ 31"
  proof (cases "sint a = - (2 ^ 31)")
    case False
    with la ua r show ?thesis by auto
  next
    case True
    with h have b: "sint b \<noteq> - 1" by simp
    show ?thesis
    proof (cases "sint b = 0 \<or> sint b = 1")
      case True
      then show ?thesis using ua by auto
    next
      case False
      with b have "2 \<le> \<bar>sint b\<bar>" by arith
      then have "\<bar>sint a\<bar> div \<bar>sint b\<bar> \<le> \<bar>sint a\<bar> div 2"
        by (intro zdiv_mono2) auto
      moreover have "sint a sdiv sint b \<le> \<bar>sint a\<bar> div \<bar>sint b\<bar>"
        by (auto simp: signed_divide_int_def sgn_if pos_imp_zdiv_nonneg_iff)
      ultimately show ?thesis using True by simp
    qed
  qed
  moreover have "- (2 ^ 31) \<le> sint a sdiv sint b" using r la ua by auto
  ultimately show ?thesis by (simp add: c_sdiv_def sint_word_of_int_c)
qed

section \<open>The ramp progress function\<close>

text \<open>
  Claim C1. For every elapsed value and window length, \<open>calculate_ramp_progress\<close> returns
  100 when the window is at most elapsed + 2, returns 100 when the window is 0, and
  otherwise returns elapsed * 100 / window by C's truncating division; at the boundary
  window = elapsed + 2 it returns 100. The comparison, the sum and the product are the
  machine operations of the source. Read as integers: whenever elapsed * 100 fits into 32
  bits the result is the mathematical quotient truncated towards zero, and for a
  non-negative elapsed value the result at window = elapsed + 3 is the integer quotient
  elapsed * 100 div (elapsed + 3).
\<close>

theorem calculate_ramp_progress_cases:
  "(window \<le>s elapsed + 2 \<longrightarrow> calculate_ramp_progress elapsed window = 100)
   \<and> (window = 0 \<longrightarrow> calculate_ramp_progress elapsed window = 100)
   \<and> (\<not> window \<le>s elapsed + 2 \<and> window \<noteq> 0 \<longrightarrow>
        calculate_ramp_progress elapsed window = c_sdiv (elapsed * 100) window)
   \<and> calculate_ramp_progress elapsed (elapsed + 2) = 100
   \<and> (- (2 ^ 31) \<le> sint elapsed * 100 \<and> sint elapsed * 100 < 2 ^ 31
        \<and> \<not> window \<le>s elapsed + 2 \<and> window \<noteq> 0 \<longrightarrow>
        sint (calculate_ramp_progress elapsed window) = (sint elapsed * 100) sdiv sint window)
   \<and> (0 \<le> sint elapsed \<and> sint elapsed * 100 < 2 ^ 31 \<longrightarrow>
        sint (calculate_ramp_progress elapsed (elapsed + 3))
          = (sint elapsed * 100) div (sint elapsed + 3))"
proof -
  have general: "sint (calculate_ramp_progress elapsed window) = (sint elapsed * 100) sdiv sint window"
    if r: "- (2 ^ 31) \<le> sint elapsed * 100" "sint elapsed * 100 < 2 ^ 31"
      and c: "\<not> window \<le>s elapsed + 2" "window \<noteq> 0" for window
  proof -
    have m: "sint (elapsed * 100) = sint elapsed * 100"
      using r by (simp add: sint_mult_c)
    have "sint elapsed * 100 \<noteq> - 2147483648" by presburger
    then have "sint elapsed * 100 \<noteq> - (2 ^ 31)" by simp
    with m have "sint (c_sdiv (elapsed * 100) window) = sint (elapsed * 100) sdiv sint window"
      by (intro sint_c_sdiv) simp
    with m c show ?thesis by (simp add: calculate_ramp_progress_def)
  qed
  have three: "sint (calculate_ramp_progress elapsed (elapsed + 3))
          = (sint elapsed * 100) div (sint elapsed + 3)"
    if r: "0 \<le> sint elapsed" "sint elapsed * 100 < 2 ^ 31"
  proof -
    have s3: "sint (elapsed + 3) = sint elapsed + 3"
      using r by (subst sint_add_c) simp_all
    have s2: "sint (elapsed + 2) = sint elapsed + 2"
      using r by (subst sint_add_c) simp_all
    have c1: "\<not> elapsed + 3 \<le>s elapsed + 2"
      by (simp add: word_sle_eq s3 s2)
    have c2: "elapsed + 3 \<noteq> 0"
      using s3 r by (metis add_nonneg_eq_0_iff sint_0 zero_neq_numeral zero_le_numeral)
    have "sint (calculate_ramp_progress elapsed (elapsed + 3))
            = (sint elapsed * 100) sdiv sint (elapsed + 3)"
      using r c1 c2 by (intro general) simp_all
    also have "\<dots> = (sint elapsed * 100) div (sint elapsed + 3)"
      using r by (simp add: s3 signed_divide_int_def sgn_if)
    finally show ?thesis .
  qed
  show ?thesis
    using general three by (simp add: calculate_ramp_progress_def)
qed

theorem calculate_ramp_progress_cases_witness:
  "calculate_ramp_progress 248 250 = 100
   \<and> calculate_ramp_progress 5 0 = 100
   \<and> calculate_ramp_progress 124 250 = 49
   \<and> sint (calculate_ramp_progress 124 250) = 49
   \<and> sint (calculate_ramp_progress 247 250) = 98"
  using calculate_ramp_progress_cases [of 250 248] calculate_ramp_progress_cases [of 0 5]
    calculate_ramp_progress_cases [of 250 124] calculate_ramp_progress_cases [of 250 247]
  by (simp add: c_sdiv_def)

section \<open>Position accessors\<close>

text \<open>
  Claim C9. For every value \<open>p\<close>, setting the position to \<open>p\<close> and then reading the
  position returns exactly \<open>p\<close>: the setter stores \<open>p\<close> in the resting accumulator
  \<open>tacho\<close> and zeroes the live delta \<open>irq_tacho\<close>, and the getter always returns the sum
  of the two.
\<close>

theorem position_set_then_get:
  "ev3_tacho_motor_get_position (ev3_tacho_motor_set_position p s) = p
   \<and> tacho (ev3_tacho_motor_set_position p s) = p
   \<and> irq_tacho (ev3_tacho_motor_set_position p s) = 0
   \<and> ev3_tacho_motor_get_position s = tacho s + irq_tacho s"
  by (simp add: ev3_tacho_motor_get_position_def ev3_tacho_motor_set_position_def)

theorem position_set_then_get_witness:
  "ev3_tacho_motor_get_position
     (ev3_tacho_motor_set_position (- 1000) (probe_data TACHO_MOTOR_EV3_LARGE)) = - 1000"
  using position_set_then_get [of "- 1000" "probe_data TACHO_MOTOR_EV3_LARGE"] by simp

section \<open>Setting the power\<close>

lemma clamp_power_range: "- 100 \<le> sint (clamp_power p) \<and> sint (clamp_power p) \<le> 100"
  by (simp add: clamp_power_def MAX_POWER_def word_sless_alt)

lemma calls_update_output:
  "\<exists>cs. calls (ev3_tacho_motor_update_output s)
          = calls s @ cs @ [Set_duty_cycle (c_abs (power_lvl (ev3_tacho_motor_update_output s)))]"
  by (simp add: ev3_tacho_motor_update_output_def emit_def Let_def split: tm_stop_mode.split)

text \<open>
  Claim C8. For every requested power, \<open>ev3_tacho_motor_set_power\<close> is a no-op when the
  request equals the last applied power: the state is returned as it was, so no field
  changes and no call reaches the physical driver. Otherwise it stores the request
  clamped into [-100, 100] and then updates the output, which ends with a call of
  \<open>set_duty_cycle\<close>.
\<close>

theorem set_power_noop_or_clamp:
  "(power_lvl s = p \<longrightarrow> ev3_tacho_motor_set_power p s = s)
   \<and> (power_lvl s \<noteq> p \<longrightarrow>
        ev3_tacho_motor_set_power p s
          = ev3_tacho_motor_update_output (s\<lparr>power_lvl := clamp_power p\<rparr>)
        \<and> (\<exists>cs. calls (ev3_tacho_motor_set_power p s)
                 = calls s @ cs
                     @ [Set_duty_cycle (c_abs (power_lvl (ev3_tacho_motor_set_power p s)))]))
   \<and> - 100 \<le> sint (clamp_power p) \<and> sint (clamp_power p) \<le> 100
   \<and> (- 100 \<le> sint p \<and> sint p \<le> 100 \<longrightarrow> clamp_power p = p)
   \<and> (100 < sint p \<longrightarrow> clamp_power p = 100)
   \<and> (sint p < - 100 \<longrightarrow> clamp_power p = - 100)"
proof -
  have "\<exists>cs. calls (ev3_tacho_motor_set_power p s)
                 = calls s @ cs
                     @ [Set_duty_cycle (c_abs (power_lvl (ev3_tacho_motor_set_power p s)))]"
    if "power_lvl s \<noteq> p"
    using that calls_update_output [of "s\<lparr>power_lvl := clamp_power p\<rparr>"]
    by (simp add: ev3_tacho_motor_set_power_def)
  moreover have "clamp_power p = p" if "- 100 \<le> sint p" "sint p \<le> 100"
    using that by (simp add: clamp_power_def MAX_POWER_def word_sless_alt)
  moreover have "clamp_power p = 100" if "100 < sint p"
    using that by (simp add: clamp_power_def MAX_POWER_def word_sless_alt)
  moreover have "clamp_power p = - 100" if "sint p < - 100"
    using that by (simp add: clamp_power_def MAX_POWER_def word_sless_alt)
  ultimately show ?thesis
    using clamp_power_range [of p] by (simp add: ev3_tacho_motor_set_power_def)
qed

theorem set_power_noop_or_clamp_witness:
  "ev3_tacho_motor_set_power 0 (probe_data TACHO_MOTOR_EV3_LARGE)
     = probe_data TACHO_MOTOR_EV3_LARGE
   \<and> ev3_tacho_motor_set_power 150 (probe_data TACHO_MOTOR_EV3_LARGE)
       = ev3_tacho_motor_update_output
           ((probe_data TACHO_MOTOR_EV3_LARGE)\<lparr>power_lvl := clamp_power 150\<rparr>)
   \<and> clamp_power 150 = 100 \<and> clamp_power (- 150) = - 100 \<and> clamp_power (- 7) = - 7"
proof -
  have p: "power_lvl (probe_data TACHO_MOTOR_EV3_LARGE) = 0"
    by (simp add: probe_data_def ev3_tacho_motor_reset_def)
  show ?thesis
    using set_power_noop_or_clamp [of "probe_data TACHO_MOTOR_EV3_LARGE" 0]
      set_power_noop_or_clamp [of "probe_data TACHO_MOTOR_EV3_LARGE" 150]
      set_power_noop_or_clamp [of "probe_data TACHO_MOTOR_EV3_LARGE" "- 150"]
      set_power_noop_or_clamp [of "probe_data TACHO_MOTOR_EV3_LARGE" "- 7"] p
    by simp
qed

section \<open>Direction decoding\<close>

text \<open>
  Claim C6. For all 16 combinations of interrupt-line level, direction-line level, output
  polarity and encoder polarity, when the handler recomputes the direction (the speed
  field is neither above 35 nor below -35), the direction it records is the comparison of
  the two line levels combined with the two polarity flags by the truth table.
\<close>

theorem isr_direction_truth_table:
  assumes "\<not> 35 <s speed s" and "\<not> speed s <s - 35"
  shows "run_direction (tacho_motor_isr int_level dir_level timer s)
           = spec_apply_polarity (spec_truth_table (polarity_mode s) (encoder_mode s))
               (spec_line_comparison int_level dir_level)"
  using assms
  by (cases "polarity_mode s"; cases "encoder_mode s")
     (simp_all add: tacho_motor_isr_def isr_decide_def resolve_direction_def Let_def
        spec_line_comparison_def)

theorem isr_direction_truth_table_witness:
  "run_direction (tacho_motor_isr True False 1000000 (probe_data TACHO_MOTOR_EV3_LARGE)) = FORWARD
   \<and> run_direction (tacho_motor_isr True True 1000000 (probe_data TACHO_MOTOR_EV3_LARGE)) = REVERSE
   \<and> run_direction (tacho_motor_isr True False 1000000
        ((probe_data TACHO_MOTOR_EV3_LARGE)\<lparr>encoder_mode := DC_MOTOR_POLARITY_INVERTED\<rparr>)) = REVERSE
   \<and> run_direction (tacho_motor_isr True False 1000000
        ((probe_data TACHO_MOTOR_EV3_LARGE)\<lparr>polarity_mode := DC_MOTOR_POLARITY_INVERTED,
            encoder_mode := DC_MOTOR_POLARITY_INVERTED\<rparr>)) = FORWARD"
proof -
  have p: "speed (probe_data TACHO_MOTOR_EV3_LARGE) = 0"
    "polarity_mode (probe_data TACHO_MOTOR_EV3_LARGE) = DC_MOTOR_POLARITY_NORMAL"
    "encoder_mode (probe_data TACHO_MOTOR_EV3_LARGE) = DC_MOTOR_POLARITY_NORMAL"
    by (simp_all add: probe_data_def ev3_tacho_motor_reset_def)
  have z: "\<not> 35 <s (0 :: c_int)" "\<not> (0 :: c_int) <s - 35"
    by (simp_all add: word_sless_alt)
  show ?thesis
    using isr_direction_truth_table [of "probe_data TACHO_MOTOR_EV3_LARGE" True False 1000000]
      isr_direction_truth_table [of "probe_data TACHO_MOTOR_EV3_LARGE" True True 1000000]
      isr_direction_truth_table
        [of "(probe_data TACHO_MOTOR_EV3_LARGE)\<lparr>encoder_mode := DC_MOTOR_POLARITY_INVERTED\<rparr>"
            True False 1000000]
      isr_direction_truth_table
        [of "(probe_data TACHO_MOTOR_EV3_LARGE)\<lparr>polarity_mode := DC_MOTOR_POLARITY_INVERTED,
              encoder_mode := DC_MOTOR_POLARITY_INVERTED\<rparr>" True False 1000000]
    by (simp add: p z spec_line_comparison_def)
qed

section \<open>The emergency stop\<close>

lemma draw_estop_nonzero: "e \<noteq> 0 \<Longrightarrow> draw_estop rnd i e = Some e"
  by (subst draw_estop.simps) simp

text \<open>The loop ends as soon as the random source yields a non-zero value.\<close>

lemma draw_estop_terminates:
  "rnd (i + n) \<noteq> 0 \<Longrightarrow> \<exists>k. draw_estop rnd i 0 = Some k \<and> k \<noteq> 0"
proof (induction n arbitrary: i)
  case 0
  then show ?case
    by (subst draw_estop.simps) (simp add: draw_estop_nonzero)
next
  case (Suc n)
  show ?case
  proof (cases "rnd i = 0")
    case True
    from Suc.prems have "rnd (Suc i + n) \<noteq> 0" by simp
    from Suc.IH [OF this] True show ?thesis
      by (subst draw_estop.simps) simp
  next
    case False
    then show ?thesis
      by (subst draw_estop.simps) (simp add: draw_estop_nonzero)
  qed
qed

lemma draw_estop_result:
  assumes a: "draw_estop rnd i e = Some k"
  shows "k \<noteq> 0"
proof (rule draw_estop.raw_induct [where P = "\<lambda>_ _ _ y. y \<noteq> 0", OF _ a])
  fix f :: "(nat \<Rightarrow> c_int) \<Rightarrow> nat \<Rightarrow> c_int \<Rightarrow> c_int option" and rnd i e y
  assume "\<And>rnd i e y. f rnd i e = Some y \<Longrightarrow> y \<noteq> 0"
    and "(if 0 = e then f rnd (Suc i) (rnd i) else Some e) = Some y"
  then show "y \<noteq> 0" by (auto split: if_splits)
qed

text \<open>
  Claim C3. The emergency-stop write is a two-phase commit. A write while the token is 0
  returns as soon as the random source yields a non-zero value, and whenever it returns
  the token is non-zero and the state is \<open>TM_STATE_STOP\<close>. A write of exactly the current
  token while armed sets the token to 0 and changes nothing else. A write of any other
  value while armed leaves the whole state unchanged.
\<close>

theorem estop_two_phase:
  "(estop s = 0 \<and> (\<exists>n. rnd n \<noteq> 0) \<longrightarrow>
      (\<exists>s'. ev3_tacho_motor_set_estop rnd v s = Some s'
            \<and> estop s' \<noteq> 0 \<and> state s' = TM_STATE_STOP))
   \<and> (estop s = 0 \<longrightarrow>
        (\<forall>s'. ev3_tacho_motor_set_estop rnd v s = Some s' \<longrightarrow>
              estop s' \<noteq> 0 \<and> state s' = TM_STATE_STOP))
   \<and> (estop s \<noteq> 0 \<and> v = estop s \<longrightarrow>
        ev3_tacho_motor_set_estop rnd v s = Some (s\<lparr>estop := 0\<rparr>))
   \<and> (estop s \<noteq> 0 \<and> v \<noteq> estop s \<longrightarrow> ev3_tacho_motor_set_estop rnd v s = Some s)"
proof -
  have total: "\<exists>s'. ev3_tacho_motor_set_estop rnd v s = Some s'
            \<and> estop s' \<noteq> 0 \<and> state s' = TM_STATE_STOP"
    if z: "estop s = 0" and n: "rnd n \<noteq> 0" for n
  proof -
    from n have "rnd (0 + n) \<noteq> 0" by simp
    from draw_estop_terminates [of rnd 0 n, OF this] obtain k
      where "draw_estop rnd 0 0 = Some k" "k \<noteq> 0" by blast
    with z show ?thesis by (simp add: ev3_tacho_motor_set_estop_def)
  qed
  have partial: "estop s' \<noteq> 0 \<and> state s' = TM_STATE_STOP"
    if z: "estop s = 0" and r: "ev3_tacho_motor_set_estop rnd v s = Some s'" for s'
  proof (cases "draw_estop rnd 0 0")
    case None
    with z r show ?thesis by (simp add: ev3_tacho_motor_set_estop_def)
  next
    case (Some k)
    from draw_estop_result [OF this] Some z r show ?thesis
      by (auto simp: ev3_tacho_motor_set_estop_def)
  qed
  show ?thesis
    using total partial by (auto simp: ev3_tacho_motor_set_estop_def)
qed

theorem estop_two_phase_witness:
  "(\<exists>s'. ev3_tacho_motor_set_estop (\<lambda>n. if n < 2 then 0 else 77) 5
           (probe_data TACHO_MOTOR_EV3_LARGE) = Some s'
        \<and> estop s' \<noteq> 0 \<and> state s' = TM_STATE_STOP)
   \<and> ev3_tacho_motor_set_estop (\<lambda>n. 0) 77 ((probe_data TACHO_MOTOR_EV3_LARGE)\<lparr>estop := 77\<rparr>)
       = Some ((probe_data TACHO_MOTOR_EV3_LARGE)\<lparr>estop := 0\<rparr>)
   \<and> ev3_tacho_motor_set_estop (\<lambda>n. 0) 78 ((probe_data TACHO_MOTOR_EV3_LARGE)\<lparr>estop := 77\<rparr>)
       = Some ((probe_data TACHO_MOTOR_EV3_LARGE)\<lparr>estop := 77\<rparr>)"
proof -
  have e: "estop (probe_data TACHO_MOTOR_EV3_LARGE) = 0"
    by (simp add: probe_data_def ev3_tacho_motor_reset_def)
  have n: "\<exists>n. (\<lambda>n :: nat. if n < 2 then 0 else (77 :: c_int)) n \<noteq> 0"
    by (rule exI [of _ "2 :: nat"]) simp
  show ?thesis
    using estop_two_phase [of "probe_data TACHO_MOTOR_EV3_LARGE" "\<lambda>n. if n < 2 then 0 else 77" 5]
      estop_two_phase [of "(probe_data TACHO_MOTOR_EV3_LARGE)\<lparr>estop := 77\<rparr>" "\<lambda>n. 0" 77]
      estop_two_phase [of "(probe_data TACHO_MOTOR_EV3_LARGE)\<lparr>estop := 77\<rparr>" "\<lambda>n. 0" 78]
      e n
    by simp
qed

section \<open>Frame properties of the timer callback\<close>

text \<open>The fields the timer callback's callees leave alone.\<close>

lemma update_output_frame:
  "ramp_count (ev3_tacho_motor_update_output s) = ramp_count s
   \<and> run (ev3_tacho_motor_update_output s) = run s
   \<and> speed (ev3_tacho_motor_update_output s) = speed s
   \<and> tacho_samples (ev3_tacho_motor_update_output s) = tacho_samples s
   \<and> tacho_samples_head (ev3_tacho_motor_update_output s) = tacho_samples_head s"
  by (simp add: ev3_tacho_motor_update_output_def emit_def Let_def split: tm_stop_mode.split)

lemma set_power_frame:
  "ramp_count (ev3_tacho_motor_set_power p s) = ramp_count s
   \<and> run (ev3_tacho_motor_set_power p s) = run s
   \<and> speed (ev3_tacho_motor_set_power p s) = speed s
   \<and> tacho_samples (ev3_tacho_motor_set_power p s) = tacho_samples s
   \<and> tacho_samples_head (ev3_tacho_motor_set_power p s) = tacho_samples_head s"
  by (simp add: ev3_tacho_motor_set_power_def update_output_frame)

lemma update_motor_frame:
  "ramp_count (update_motor_speed_or_power p s) = ramp_count s
   \<and> run (update_motor_speed_or_power p s) = run s
   \<and> speed (update_motor_speed_or_power p s) = speed s
   \<and> tacho_samples (update_motor_speed_or_power p s) = tacho_samples s
   \<and> tacho_samples_head (update_motor_speed_or_power p s) = tacho_samples_head s"
  by (simp add: update_motor_speed_or_power_def set_power_frame split: tm_regulation_mode.split)

lemma adjust_ramp_frame:
  "ramp_count (adjust_ramp_for_position s) = ramp_count s
   \<and> run (adjust_ramp_for_position s) = run s
   \<and> speed (adjust_ramp_for_position s) = speed s
   \<and> tacho_samples (adjust_ramp_for_position s) = tacho_samples s
   \<and> tacho_samples_head (adjust_ramp_for_position s) = tacho_samples_head s"
  by (simp add: adjust_ramp_for_position_def Let_def)

lemma case_ramp_down_frame:
  "ramp_count (fst (case_ramp_down s)) = ramp_count s
   \<and> run (fst (case_ramp_down s)) = run s
   \<and> speed (fst (case_ramp_down s)) = speed s
   \<and> tacho_samples (fst (case_ramp_down s)) = tacho_samples s
   \<and> tacho_samples_head (fst (case_ramp_down s)) = tacho_samples_head s"
  by (simp add: case_ramp_down_def Let_def update_motor_frame split: prod.split)

lemma tm_step_frame:
  "ramp_count (fst (tm_step s))
     = (if state s = TM_STATE_SETUP_RAMP_REGULATION then 0 else ramp_count s)
   \<and> run (fst (tm_step s)) = (if state s = TM_STATE_IDLE then 0 else run s)
   \<and> speed (fst (tm_step s)) = speed s
   \<and> tacho_samples (fst (tm_step s)) = tacho_samples s
   \<and> tacho_samples_head (fst (tm_step s)) = tacho_samples_head s"
  by (cases "state s")
     (simp_all add: tm_step_def case_setup_ramp_time_def case_setup_ramp_position_def
        case_setup_ramp_regulation_def case_ramp_up_def case_ramp_const_def
        case_position_ramp_down_def case_ramp_down_frame case_stop_def case_idle_def
        set_ramp_full_def emit_def Let_def update_motor_frame adjust_ramp_frame set_power_frame
        split: tm_run_mode.split prod.split tm_regulation_mode.split)

lemma tm_step_idle:
  "state s = TM_STATE_IDLE \<Longrightarrow> \<not> snd (tm_step s) \<and> state (fst (tm_step s)) = TM_STATE_IDLE"
  by (simp add: tm_step_def case_idle_def emit_def)

lemma tm_step_from_setup:
  "state s \<in> {TM_STATE_RUN_FOREVER, TM_STATE_SETUP_RAMP_TIME, TM_STATE_SETUP_RAMP_POSITION}
     \<Longrightarrow> snd (tm_step s) \<and> state (fst (tm_step s)) = TM_STATE_SETUP_RAMP_REGULATION"
  by (auto simp: tm_step_def case_setup_ramp_time_def case_setup_ramp_position_def Let_def)

lemma tm_step_from_regulation:
  "state s = TM_STATE_SETUP_RAMP_REGULATION
     \<Longrightarrow> snd (tm_step s) \<and> state (fst (tm_step s)) = TM_STATE_RAMP_UP"
  by (simp add: tm_step_def case_setup_ramp_regulation_def)

lemma tm_step_low_rank:
  "state_rank (state s) \<le> 5 \<Longrightarrow> snd (tm_step s) \<Longrightarrow> state_rank (state (fst (tm_step s))) \<le> 5"
  using tm_step_rank [of s "fst (tm_step s)"] by (cases "tm_step s") auto

text \<open>The loop never adds to the ramp counter: from a ramp state, Stop or Idle it leaves
  the counter as it is.\<close>

lemma tm_loop_low_ramp_count:
  "state_rank (state s) \<le> 5 \<Longrightarrow> ramp_count (tm_loop s) = ramp_count s"
proof (induction s rule: tm_loop.induct)
  case (1 s)
  obtain s' r where st: "tm_step s = (s', r)" by (cases "tm_step s")
  have c: "ramp_count s' = ramp_count s"
    using tm_step_frame [of s] st "1.prems" by auto
  show ?case
  proof (cases r)
    case True
    have "state_rank (state s') \<le> 5"
      using tm_step_low_rank [of s] st True "1.prems" by simp
    with "1.IH" [OF st [symmetric] True] c st True show ?thesis
      by (subst tm_loop.simps) simp
  next
    case False
    with c st show ?thesis by (subst tm_loop.simps) simp
  qed
qed

text \<open>From a setup state the chain passes through the regulation setup, which zeroes the
  counter, and then through ramp states only.\<close>

lemma tm_loop_regulation_ramp_count:
  assumes "state s = TM_STATE_SETUP_RAMP_REGULATION"
  shows "ramp_count (tm_loop s) = 0"
proof -
  obtain s' r where st: "tm_step s = (s', r)" by (cases "tm_step s")
  from tm_step_from_regulation [OF assms] st have r: r and s': "state s' = TM_STATE_RAMP_UP"
    by simp_all
  have "ramp_count s' = 0" using tm_step_frame [of s] st assms by simp
  moreover have "ramp_count (tm_loop s') = ramp_count s'"
    by (rule tm_loop_low_ramp_count) (simp add: s')
  ultimately show ?thesis using st r by (subst tm_loop.simps) simp
qed

lemma tm_loop_setup_ramp_count:
  assumes "state s \<in> {TM_STATE_RUN_FOREVER, TM_STATE_SETUP_RAMP_TIME, TM_STATE_SETUP_RAMP_POSITION}"
  shows "ramp_count (tm_loop s) = 0"
proof -
  obtain s' r where st: "tm_step s = (s', r)" by (cases "tm_step s")
  from tm_step_from_setup [OF assms] st
  have r: r and s': "state s' = TM_STATE_SETUP_RAMP_REGULATION" by simp_all
  from tm_loop_regulation_ramp_count [OF s'] st r show ?thesis
    by (subst tm_loop.simps) simp
qed

lemma tm_loop_ramp_count:
  "ramp_count (tm_loop s) = (if state s \<in> setup_states then 0 else ramp_count s)"
proof (cases "state s \<in> setup_states")
  case True
  then show ?thesis
    using tm_loop_regulation_ramp_count [of s] tm_loop_setup_ramp_count [of s]
    by (auto simp: setup_states_def)
next
  case False
  then have "state_rank (state s) \<le> 5"
    by (cases "state s") (simp_all add: setup_states_def)
  with False show ?thesis by (simp add: tm_loop_low_ramp_count)
qed

lemma tm_loop_frame:
  "speed (tm_loop s) = speed s
   \<and> tacho_samples (tm_loop s) = tacho_samples s
   \<and> tacho_samples_head (tm_loop s) = tacho_samples_head s"
proof (induction s rule: tm_loop.induct)
  case (1 s)
  obtain s' r where st: "tm_step s = (s', r)" by (cases "tm_step s")
  have c: "speed s' = speed s" "tacho_samples s' = tacho_samples s"
    "tacho_samples_head s' = tacho_samples_head s"
    using tm_step_frame [of s] st by simp_all
  show ?case
  proof (cases r)
    case True
    with "1.IH" [OF st [symmetric] True] c st show ?thesis
      by (subst (1 2 3) tm_loop.simps) simp
  next
    case False
    with c st show ?thesis by (subst (1 2 3) tm_loop.simps) simp
  qed
qed

text \<open>The loop clears the run flag only by ending in Idle.\<close>

lemma tm_loop_run:
  "run s \<noteq> 0 \<Longrightarrow> run (tm_loop s) = 0 \<Longrightarrow> state (tm_loop s) = TM_STATE_IDLE"
proof (induction s rule: tm_loop.induct)
  case (1 s)
  obtain s' r where st: "tm_step s = (s', r)" by (cases "tm_step s")
  show ?case
  proof (cases "state s = TM_STATE_IDLE")
    case True
    with tm_step_idle [of s] st show ?thesis by (subst tm_loop.simps) simp
  next
    case False
    then have run': "run s' \<noteq> 0" using tm_step_frame [of s] st "1.prems" by simp
    show ?thesis
    proof (cases r)
      case True
      from "1.prems"(2) st True have "run (tm_loop s') = 0"
        by (subst (asm) tm_loop.simps) simp
      from "1.IH" [OF st [symmetric] True run' this] st True show ?thesis
        by (subst tm_loop.simps) simp
    next
      case False
      from "1.prems"(2) st False have "run s' = 0"
        by (subst (asm) tm_loop.simps) simp
      with run' show ?thesis by simp
    qed
  qed
qed

lemma calculate_speed_frame:
  "ramp_count (fst (calculate_speed now s)) = ramp_count s
   \<and> state (fst (calculate_speed now s)) = state s
   \<and> run (fst (calculate_speed now s)) = run s
   \<and> speed (fst (calculate_speed now s)) = speed s
   \<and> tacho_samples (fst (calculate_speed now s)) = tacho_samples s
   \<and> tacho_samples_head (fst (calculate_speed now s)) = tacho_samples_head s"
  by (simp add: calculate_speed_def set_samples_per_speed_def Let_def)

lemma regulate_speed_frame:
  "ramp_count (regulate_speed s) = ramp_count s
   \<and> state (regulate_speed s) = state s
   \<and> run (regulate_speed s) = run s
   \<and> speed (regulate_speed s) = speed s
   \<and> tacho_samples (regulate_speed s) = tacho_samples s
   \<and> tacho_samples_head (regulate_speed s) = tacho_samples_head s"
  by (simp add: regulate_speed_def regulate_speed_terms_def clamp_speed_reg_sp_def Let_def
      set_power_frame set_power_state)

lemma regulate_position_frame:
  "ramp_count (regulate_position s) = ramp_count s
   \<and> state (regulate_position s) = state s
   \<and> run (regulate_position s) = run s
   \<and> speed (regulate_position s) = speed s
   \<and> tacho_samples (regulate_position s) = tacho_samples s
   \<and> tacho_samples_head (regulate_position s) = tacho_samples_head s"
  by (simp add: regulate_position_def Let_def set_power_frame set_power_state)

lemma no_run_frame:
  "ramp_count (no_run s) = ramp_count s
   \<and> state (no_run s) = state s
   \<and> run (no_run s) = run s
   \<and> speed (no_run s) = speed s
   \<and> tacho_samples (no_run s) = tacho_samples s
   \<and> tacho_samples_head (no_run s) = tacho_samples_head s"
  by (simp add: no_run_def emit_def regulate_position_frame split: tm_stop_mode.split)

lemma advance_ramp_count_frame:
  "ramp_count (advance_ramp_count s)
     = (if state s \<in> ramp_states then ramp_count s + 2 else ramp_count s)
   \<and> state (advance_ramp_count s) = state s
   \<and> run (advance_ramp_count s) = run s
   \<and> speed (advance_ramp_count s) = speed s
   \<and> tacho_samples (advance_ramp_count s) = tacho_samples s
   \<and> tacho_samples_head (advance_ramp_count s) = tacho_samples_head s"
  by (cases "state s") (simp_all add: advance_ramp_count_def ramp_states_def)

text \<open>The counter over a whole tick, in any state.\<close>

lemma timer_callback_ramp_count:
  "ramp_count (ev3_tacho_motor_timer_callback now s)
     = (if run s \<noteq> 0 \<and> state s \<in> ramp_states then ramp_count s + 2
        else if run s \<noteq> 0 \<and> state s \<in> setup_states then 0
        else ramp_count s)"
proof -
  obtain s1 u where cs: "calculate_speed now s = (s1, u)" by (cases "calculate_speed now s")
  from calculate_speed_frame [of now s] cs
  have f: "ramp_count s1 = ramp_count s" "state s1 = state s" "run s1 = run s" by simp_all
  have d: "state s \<in> ramp_states \<longrightarrow> state s \<notin> setup_states"
    by (auto simp: ramp_states_def setup_states_def)
  show ?thesis
    using f d advance_ramp_count_frame [of s1]
    by (auto simp: ev3_tacho_motor_timer_callback_def cs Let_def no_run_frame
        regulate_speed_frame tm_loop_ramp_count)
qed

lemma timer_callback_frame:
  "speed (ev3_tacho_motor_timer_callback now s) = speed s
   \<and> tacho_samples (ev3_tacho_motor_timer_callback now s) = tacho_samples s
   \<and> tacho_samples_head (ev3_tacho_motor_timer_callback now s) = tacho_samples_head s"
proof -
  obtain s1 u where cs: "calculate_speed now s = (s1, u)" by (cases "calculate_speed now s")
  from calculate_speed_frame [of now s] cs
  have f: "speed s1 = speed s" "tacho_samples s1 = tacho_samples s"
    "tacho_samples_head s1 = tacho_samples_head s" by simp_all
  show ?thesis
    using f advance_ramp_count_frame [of s1]
    by (simp add: ev3_tacho_motor_timer_callback_def cs Let_def no_run_frame
        regulate_speed_frame tm_loop_frame)
qed

text \<open>A tick that starts with the run flag set and ends with it cleared ends in Idle; a
  tick that starts with it cleared changes neither the flag nor the state.\<close>

lemma timer_callback_run:
  "(run s \<noteq> 0 \<and> run (ev3_tacho_motor_timer_callback now s) = 0
      \<longrightarrow> state (ev3_tacho_motor_timer_callback now s) = TM_STATE_IDLE)
   \<and> (run s = 0 \<longrightarrow> run (ev3_tacho_motor_timer_callback now s) = 0
        \<and> state (ev3_tacho_motor_timer_callback now s) = state s)"
proof -
  obtain s1 u where cs: "calculate_speed now s = (s1, u)" by (cases "calculate_speed now s")
  from calculate_speed_frame [of now s] cs
  have f: "state s1 = state s" "run s1 = run s" by simp_all
  have "state (tm_loop (advance_ramp_count s1)) = TM_STATE_IDLE"
    if "run s \<noteq> 0" "run (tm_loop (advance_ramp_count s1)) = 0"
    using that f advance_ramp_count_frame [of s1]
    by (intro tm_loop_run) simp_all
  then show ?thesis
    using f by (auto simp: ev3_tacho_motor_timer_callback_def cs Let_def no_run_frame
        regulate_speed_frame)
qed

section \<open>Reachable states\<close>

lemma word_mod_128_less: "(x :: c_int) mod 128 < 128"
  by (rule word_mod_less_divisor) simp

lemma isr_frame:
  "run (tacho_motor_isr i d t s) = run s
   \<and> state (tacho_motor_isr i d t s) = state s
   \<and> speed (tacho_motor_isr i d t s) = speed s
   \<and> length (tacho_samples (tacho_motor_isr i d t s)) = length (tacho_samples s)
   \<and> (tacho_samples_head s < 128 \<longrightarrow> tacho_samples_head (tacho_motor_isr i d t s) < 128)"
  by (simp add: tacho_motor_isr_def isr_decide_def bump_dir_chg_samples_def Let_def
      TACHO_SAMPLES_def word_mod_128_less)

lemma probe_state_ok: "state_ok (probe_data mid)"
  by (simp add: state_ok_def probe_data_def ev3_tacho_motor_reset_def)

lemma apply_op_state_ok:
  assumes "state_ok s" and "apply_op mid x s = Some s'"
  shows "state_ok s'"
proof (cases x)
  case (Op_timer now)
  with assms timer_callback_run [of s now] timer_callback_frame [of now s] show ?thesis
    by (auto simp: state_ok_def)
next
  case (Op_isr i d t)
  with assms isr_frame [of i d t s] show ?thesis
    by (auto simp: state_ok_def)
next
  case (Op_set_type ty)
  with assms show ?thesis
    by (cases ty) (auto simp: state_ok_def ev3_tacho_motor_set_type_def)
next
  case (Op_set_polarity_mode m)
  with assms update_output_frame [of "s\<lparr>polarity_mode := m\<rparr>"]
    update_output_state [of "s\<lparr>polarity_mode := m\<rparr>"] show ?thesis
    by (auto simp: state_ok_def ev3_tacho_motor_set_polarity_mode_def)
next
  case (Op_set_run v)
  with assms show ?thesis
    by (auto simp: state_ok_def ev3_tacho_motor_set_run_def Let_def split: tm_run_mode.split)
next
  case (Op_set_estop rnd v)
  with assms show ?thesis
    by (auto simp: state_ok_def ev3_tacho_motor_set_estop_def Let_def
        split: if_splits option.splits)
next
  case (Op_set_reset v)
  with assms show ?thesis
    by (auto simp: state_ok_def ev3_tacho_motor_set_reset_def ev3_tacho_motor_reset_def)
qed (use assms in \<open>auto simp: state_ok_def
      ev3_tacho_motor_set_position_def ev3_tacho_motor_set_duty_cycle_sp_def
      ev3_tacho_motor_set_pulses_per_second_sp_def ev3_tacho_motor_set_time_sp_def
      ev3_tacho_motor_set_position_sp_def ev3_tacho_motor_set_run_mode_def
      ev3_tacho_motor_set_regulation_mode_def ev3_tacho_motor_set_stop_mode_def
      ev3_tacho_motor_set_position_mode_def ev3_tacho_motor_set_encoder_mode_def
      ev3_tacho_motor_set_ramp_up_sp_def ev3_tacho_motor_set_ramp_down_sp_def
      ev3_tacho_motor_set_speed_regulation_P_def ev3_tacho_motor_set_speed_regulation_I_def
      ev3_tacho_motor_set_speed_regulation_D_def ev3_tacho_motor_set_speed_regulation_K_def\<close>)

lemma run_ops_state_ok:
  "state_ok s \<Longrightarrow> run_ops mid xs s = Some s' \<Longrightarrow> state_ok s'"
proof (induction xs arbitrary: s)
  case Nil
  then show ?case by simp
next
  case (Cons x xs)
  then show ?case
    by (auto split: option.splits dest: apply_op_state_ok)
qed

lemma reachable_state_ok: "reachable mid s \<Longrightarrow> state_ok s"
  unfolding reachable_def using run_ops_state_ok [OF probe_state_ok] by blast

lemma run_ops_append:
  "run_ops mid (xs @ ys) s = (case run_ops mid xs s of None \<Rightarrow> None | Some s' \<Rightarrow> run_ops mid ys s')"
  by (induction xs arbitrary: s) (auto split: option.splits)

lemma reachable_probe: "reachable mid (probe_data mid)"
  unfolding reachable_def by (rule exI [of _ "[]"]) simp

lemma reachable_step:
  "reachable mid s \<Longrightarrow> apply_op mid x s = Some s' \<Longrightarrow> reachable mid s'"
  unfolding reachable_def
proof -
  assume "\<exists>ops. run_ops mid ops (probe_data mid) = Some s" and a: "apply_op mid x s = Some s'"
  then obtain ops where "run_ops mid ops (probe_data mid) = Some s" by blast
  with a have "run_ops mid (ops @ [x]) (probe_data mid) = Some s'"
    by (simp add: run_ops_append)
  then show "\<exists>ops. run_ops mid ops (probe_data mid) = Some s'" by blast
qed

section \<open>The ramp counter over a tick\<close>

text \<open>
  Claim C7. On every timer tick the ramp counter is advanced by 2 (the tick period in
  milliseconds) at one place only, the switch in front of the reprocessing loop, and only
  when the state at the start of the tick is one of RampUp, RampConst, PositionRampDown,
  RampDown. The loop never adds to the counter: started in a ramp state, in Stop or in
  Idle it leaves the counter as it is, and started in a setup state it leaves the counter
  at 0, whatever chain of immediate transitions it runs. So over the whole tick the
  counter grows by exactly 2 when the tick starts in a ramp state with the run flag set,
  and in every reachable state a ramp state has the run flag set; in every other case the
  counter is unchanged or reset to 0.
\<close>

theorem ramp_count_advanced_once:
  "ramp_count (advance_ramp_count s)
     = (if state s \<in> ramp_states then ramp_count s + 2 else ramp_count s)
   \<and> ramp_count (tm_loop s) = (if state s \<in> setup_states then 0 else ramp_count s)
   \<and> ramp_count (ev3_tacho_motor_timer_callback now s)
       = (if run s \<noteq> 0 \<and> state s \<in> ramp_states then ramp_count s + 2
          else if run s \<noteq> 0 \<and> state s \<in> setup_states then 0
          else ramp_count s)
   \<and> (reachable mid s \<and> state s \<in> ramp_states \<longrightarrow>
        ramp_count (ev3_tacho_motor_timer_callback now s) = ramp_count s + 2)"
proof -
  have "ramp_count (ev3_tacho_motor_timer_callback now s) = ramp_count s + 2"
    if r: "reachable mid s" and st: "state s \<in> ramp_states"
  proof -
    from reachable_state_ok [OF r] st have "run s \<noteq> 0"
      by (auto simp: state_ok_def ramp_states_def)
    with st show ?thesis by (simp add: timer_callback_ramp_count)
  qed
  then show ?thesis
    using advance_ramp_count_frame [of s]
    by (simp add: tm_loop_ramp_count timer_callback_ramp_count)
qed

theorem ramp_count_advanced_once_witness:
  "ramp_count
     (ev3_tacho_motor_timer_callback 132000
        (ev3_tacho_motor_timer_callback 66000
           (ev3_tacho_motor_set_run 1 (probe_data TACHO_MOTOR_EV3_LARGE))))
     = ramp_count
         (ev3_tacho_motor_timer_callback 66000
            (ev3_tacho_motor_set_run 1 (probe_data TACHO_MOTOR_EV3_LARGE))) + 2"
proof -
  let ?s = "ev3_tacho_motor_timer_callback 66000
              (ev3_tacho_motor_set_run 1 (probe_data TACHO_MOTOR_EV3_LARGE))"
  have "run_ops TACHO_MOTOR_EV3_LARGE [Op_set_run 1, Op_timer 66000]
          (probe_data TACHO_MOTOR_EV3_LARGE) = Some ?s"
    by simp
  then have r: "reachable TACHO_MOTOR_EV3_LARGE ?s"
    unfolding reachable_def by blast
  have "state ?s = TM_STATE_RAMP_CONST" by code_simp
  then have st: "state ?s \<in> ramp_states" by (simp add: ramp_states_def)
  from ramp_count_advanced_once [of ?s 132000 TACHO_MOTOR_EV3_LARGE] r st
  show ?thesis by blast
qed

section \<open>The run flag\<close>

lemma tm_step_keep_state: "\<not> snd (tm_step s) \<Longrightarrow> state (fst (tm_step s)) = state s"
  by (cases "state s")
     (auto simp: tm_step_def case_setup_ramp_time_def case_setup_ramp_position_def
        case_setup_ramp_regulation_def case_ramp_up_def case_ramp_const_def
        case_position_ramp_down_def case_ramp_down_def case_stop_def case_idle_def
        Let_def update_motor_state adjust_ramp_state set_power_state emit_def
        split: if_splits tm_run_mode.splits prod.splits)

text \<open>Whenever the loop ends in Idle it has run the Idle case, which clears the flag.\<close>

lemma tm_loop_idle: "state (tm_loop s) = TM_STATE_IDLE \<Longrightarrow> run (tm_loop s) = 0"
proof (induction s rule: tm_loop.induct)
  case (1 s)
  obtain s' r where st: "tm_step s = (s', r)" by (cases "tm_step s")
  show ?case
  proof (cases r)
    case True
    from "1.prems" st True have "state (tm_loop s') = TM_STATE_IDLE"
      by (subst (asm) tm_loop.simps) simp
    from "1.IH" [OF st [symmetric] True this] st True show ?thesis
      by (subst tm_loop.simps) simp
  next
    case False
    from "1.prems" st False have i: "state s' = TM_STATE_IDLE"
      by (subst (asm) tm_loop.simps) simp
    with tm_step_keep_state [of s] st False have "state s = TM_STATE_IDLE" by simp
    with tm_step_frame [of s] st have "run s' = 0" by simp
    with st False show ?thesis by (subst tm_loop.simps) simp
  qed
qed

lemma timer_callback_idle:
  assumes "run s \<noteq> 0"
  shows "run (ev3_tacho_motor_timer_callback now s) = 0
           \<longleftrightarrow> state (ev3_tacho_motor_timer_callback now s) = TM_STATE_IDLE"
proof -
  obtain s1 u where cs: "calculate_speed now s = (s1, u)" by (cases "calculate_speed now s")
  from calculate_speed_frame [of now s] cs assms have f: "run s1 \<noteq> 0" by simp
  let ?l = "tm_loop (advance_ramp_count s1)"
  have a: "run ?l = 0 \<Longrightarrow> state ?l = TM_STATE_IDLE"
    using f advance_ramp_count_frame [of s1] by (intro tm_loop_run) simp_all
  have b: "state ?l = TM_STATE_IDLE \<Longrightarrow> run ?l = 0"
    by (rule tm_loop_idle)
  show ?thesis
    using f a b by (auto simp: ev3_tacho_motor_timer_callback_def cs Let_def no_run_frame
        regulate_speed_frame)
qed

lemma set_run_flag: "run (ev3_tacho_motor_set_run r s) = 1"
  by (simp add: ev3_tacho_motor_set_run_def Let_def)

text \<open>Apart from the timer callback and the reset, an operation leaves the run flag as it
  is or sets it to 1.\<close>

lemma apply_op_run:
  assumes "apply_op mid x s = Some s'"
    and "\<forall>now. x \<noteq> Op_timer now" and "\<forall>v. x \<noteq> Op_set_reset v"
  shows "run s' = run s \<or> run s' = 1"
proof (cases x)
  case (Op_isr i d t)
  with assms isr_frame [of i d t s] show ?thesis by auto
next
  case (Op_set_type ty)
  with assms show ?thesis by (cases ty) (auto simp: ev3_tacho_motor_set_type_def)
next
  case (Op_set_polarity_mode m)
  with assms update_output_frame [of "s\<lparr>polarity_mode := m\<rparr>"] show ?thesis
    by (auto simp: ev3_tacho_motor_set_polarity_mode_def)
next
  case (Op_set_run v)
  with assms show ?thesis by (auto simp: set_run_flag)
next
  case (Op_set_estop rnd v)
  with assms show ?thesis
    by (auto simp: ev3_tacho_motor_set_estop_def Let_def split: if_splits option.splits)
qed (use assms in \<open>auto simp:
      ev3_tacho_motor_set_position_def ev3_tacho_motor_set_duty_cycle_sp_def
      ev3_tacho_motor_set_pulses_per_second_sp_def ev3_tacho_motor_set_time_sp_def
      ev3_tacho_motor_set_position_sp_def ev3_tacho_motor_set_run_mode_def
      ev3_tacho_motor_set_regulation_mode_def ev3_tacho_motor_set_stop_mode_def
      ev3_tacho_motor_set_position_mode_def ev3_tacho_motor_set_encoder_mode_def
      ev3_tacho_motor_set_ramp_up_sp_def ev3_tacho_motor_set_ramp_down_sp_def
      ev3_tacho_motor_set_speed_regulation_P_def ev3_tacho_motor_set_speed_regulation_I_def
      ev3_tacho_motor_set_speed_regulation_D_def ev3_tacho_motor_set_speed_regulation_K_def\<close>)

text \<open>
  Claim C10, as the source has it. Every call of the run-flag setter leaves the run flag
  equal to 1, also when the caller writes 0 to request a stop, so reading the flag right
  after a stop request returns 1. Among the operations of the driver the flag is cleared
  back to 0 only by the timer callback, exactly when its state machine ends the tick in
  Idle, and by the reset, which reinitialises the whole structure.
\<close>

theorem run_flag_set_and_cleared:
  "run (ev3_tacho_motor_set_run r s) = 1
   \<and> ev3_tacho_motor_get_run (ev3_tacho_motor_set_run 0 s) = 1
   \<and> (run s \<noteq> 0 \<longrightarrow>
        (run (ev3_tacho_motor_timer_callback now s) = 0
           \<longleftrightarrow> state (ev3_tacho_motor_timer_callback now s) = TM_STATE_IDLE))
   \<and> (apply_op mid x s = Some s' \<and> run s \<noteq> 0 \<and> run s' = 0 \<longrightarrow>
        (\<exists>now. x = Op_timer now \<and> state s' = TM_STATE_IDLE) \<or> (\<exists>v. x = Op_set_reset v))"
proof -
  have "(\<exists>now. x = Op_timer now \<and> state s' = TM_STATE_IDLE) \<or> (\<exists>v. x = Op_set_reset v)"
    if a: "apply_op mid x s = Some s'" and r: "run s \<noteq> 0" and z: "run s' = 0"
  proof (cases "(\<exists>now. x = Op_timer now) \<or> (\<exists>v. x = Op_set_reset v)")
    case True
    then show ?thesis
      using a r z timer_callback_idle [OF r] by auto
  next
    case False
    with apply_op_run [OF a] r z show ?thesis by auto
  qed
  then show ?thesis
    using timer_callback_idle [of s now]
    by (simp add: set_run_flag ev3_tacho_motor_get_run_def)
qed

theorem run_flag_set_and_cleared_witness:
  "run (ev3_tacho_motor_set_run 0 (probe_data TACHO_MOTOR_EV3_LARGE)) = 1
   \<and> run (ev3_tacho_motor_timer_callback 66000
            (ev3_tacho_motor_set_run 0 (probe_data TACHO_MOTOR_EV3_LARGE))) = 0
   \<and> state (ev3_tacho_motor_timer_callback 66000
            (ev3_tacho_motor_set_run 0 (probe_data TACHO_MOTOR_EV3_LARGE))) = TM_STATE_IDLE"
proof -
  let ?s = "ev3_tacho_motor_set_run 0 (probe_data TACHO_MOTOR_EV3_LARGE)"
  have r: "run ?s \<noteq> 0" by (simp add: set_run_flag)
  have z: "run (ev3_tacho_motor_timer_callback 66000 ?s) = 0" by code_simp
  from run_flag_set_and_cleared [of 0 "probe_data TACHO_MOTOR_EV3_LARGE"]
    run_flag_set_and_cleared [of 0 ?s 66000] r z
  show ?thesis by simp
qed

text \<open>The reset clears a set run flag without the state machine running.\<close>

theorem run_flag_cleared_by_reset:
  "run (ev3_tacho_motor_set_run 1 (probe_data TACHO_MOTOR_EV3_LARGE)) = 1
   \<and> apply_op TACHO_MOTOR_EV3_LARGE (Op_set_reset 1)
        (ev3_tacho_motor_set_run 1 (probe_data TACHO_MOTOR_EV3_LARGE))
       = Some (ev3_tacho_motor_set_reset TACHO_MOTOR_EV3_LARGE 1
                (ev3_tacho_motor_set_run 1 (probe_data TACHO_MOTOR_EV3_LARGE)))
   \<and> run (ev3_tacho_motor_set_reset TACHO_MOTOR_EV3_LARGE 1
            (ev3_tacho_motor_set_run 1 (probe_data TACHO_MOTOR_EV3_LARGE))) = 0"
  by (simp add: set_run_flag ev3_tacho_motor_set_reset_def ev3_tacho_motor_reset_def)

section \<open>Noise rejection in the interrupt handler\<close>

lemma unat_head_bound: "h < (128 :: c_int) \<Longrightarrow> unat h < 128"
  by (simp add: word_less_nat_alt)

lemma unat_next_bound: "unat ((h + 1) mod (128 :: c_int)) < 128"
  using word_mod_128_less [of "h + 1"] by (simp add: word_less_nat_alt)

text \<open>After any edge the ring is intact and the slot under the head holds the timestamp
  of that edge.\<close>

lemma isr_head_slot:
  assumes "length (tacho_samples s) = 128" and "tacho_samples_head s < 128"
  shows "tacho_samples (tacho_motor_isr i d t s) ! unat (tacho_samples_head (tacho_motor_isr i d t s)) = t
         \<and> length (tacho_samples (tacho_motor_isr i d t s)) = 128
         \<and> tacho_samples_head (tacho_motor_isr i d t s) < 128"
  using assms unat_head_bound [of "tacho_samples_head s"] unat_next_bound [of "tacho_samples_head s"]
  by (simp add: tacho_motor_isr_def isr_decide_def bump_dir_chg_samples_def Let_def
      TACHO_SAMPLES_def word_mod_128_less)

text \<open>An edge closer than the minimum interval to the timestamp under the head, on the
  low-speed path: the head stays, its slot is overwritten, the previous increment is
  reversed and the increment of the new direction applied.\<close>

lemma isr_bounce:
  assumes "\<not> 35 <s speed s" and "\<not> speed s <s - 35"
    and "t - tacho_samples s ! unat (tacho_samples_head s) < 400 * 33"
  shows "tacho_samples_head (tacho_motor_isr i d t s) = tacho_samples_head s
         \<and> tacho_samples (tacho_motor_isr i d t s)
             = (tacho_samples s)[unat (tacho_samples_head s) := t]
         \<and> irq_tacho (tacho_motor_isr i d t s)
             = irq_tacho s - dir_step (run_direction s)
                 + dir_step (run_direction (tacho_motor_isr i d t s))"
  using assms
  by (simp add: tacho_motor_isr_def isr_decide_def Let_def dir_step_def)

text \<open>An edge at least the minimum interval after the timestamp under the head, on the
  low-speed path: only the increment of its direction is applied.\<close>

lemma isr_accept:
  assumes "\<not> 35 <s speed s" and "\<not> speed s <s - 35"
    and "\<not> t - tacho_samples s ! unat (tacho_samples_head s) < 400 * 33"
  shows "irq_tacho (tacho_motor_isr i d t s)
           = irq_tacho s + dir_step (run_direction (tacho_motor_isr i d t s))"
  using assms
  by (simp add: tacho_motor_isr_def isr_decide_def bump_dir_chg_samples_def Let_def dir_step_def)

text \<open>
  Claim C4, as the source has it. Take two consecutive encoder edges whose timestamps
  differ by less than the minimum plausible pulse interval (400 * 33 timer counts),
  handled on the low-speed path of an intact ring. The second edge does not append a
  slot: the head stays where the first edge left it and its slot is overwritten with the
  second timestamp. The second handler reverses the increment the first edge applied and
  applies its own, so the increments of the two edges net to the second edge's single
  step. When the first edge was itself at least the minimum interval after its
  predecessor, the two handlers together change the live position by exactly one step,
  +1 or -1.
\<close>

theorem bounce_pair_position:
  assumes low: "\<not> 35 <s speed s" "\<not> speed s <s - 35"
    and ring: "length (tacho_samples s) = 128" "tacho_samples_head s < 128"
    and close: "tb - ta < 400 * 33"
    and sa: "sa = tacho_motor_isr ia da ta s"
    and sb: "sb = tacho_motor_isr ib db tb sa"
  shows "tacho_samples_head sb = tacho_samples_head sa
         \<and> tacho_samples sb = (tacho_samples sa)[unat (tacho_samples_head sa) := tb]
         \<and> irq_tacho sb = irq_tacho sa - dir_step (run_direction sa) + dir_step (run_direction sb)
         \<and> (\<not> ta - tacho_samples s ! unat (tacho_samples_head s) < 400 * 33 \<longrightarrow>
              irq_tacho sb = irq_tacho s + dir_step (run_direction sb)
              \<and> (irq_tacho sb = irq_tacho s + 1 \<or> irq_tacho sb = irq_tacho s - 1))"
proof -
  have lowa: "\<not> 35 <s speed sa" "\<not> speed sa <s - 35"
    using low isr_frame [of ia da ta s] by (simp_all add: sa)
  have slot: "tacho_samples sa ! unat (tacho_samples_head sa) = ta"
    using isr_head_slot [OF ring, of ia da ta] by (simp add: sa)
  have closea: "tb - tacho_samples sa ! unat (tacho_samples_head sa) < 400 * 33"
    using close by (simp add: slot)
  note b = isr_bounce [OF lowa closea, of ib db, folded sb]
  have "irq_tacho sb = irq_tacho s + dir_step (run_direction sb)"
    if "\<not> ta - tacho_samples s ! unat (tacho_samples_head s) < 400 * 33"
    using isr_accept [OF low that, of ia da, folded sa] b by simp
  then show ?thesis
    using b by (auto simp: dir_step_def)
qed

theorem bounce_pair_position_witness:
  "irq_tacho (tacho_motor_isr True False 1000300
       (tacho_motor_isr False False 1000000 (probe_data TACHO_MOTOR_EV3_LARGE)))
     = irq_tacho (probe_data TACHO_MOTOR_EV3_LARGE) + 1
   \<and> tacho_samples_head (tacho_motor_isr True False 1000300
       (tacho_motor_isr False False 1000000 (probe_data TACHO_MOTOR_EV3_LARGE)))
     = tacho_samples_head (tacho_motor_isr False False 1000000 (probe_data TACHO_MOTOR_EV3_LARGE))"
proof -
  let ?p = "probe_data TACHO_MOTOR_EV3_LARGE"
  let ?s1 = "tacho_motor_isr False False 1000000 ?p"
  let ?s2 = "tacho_motor_isr True False 1000300 ?s1"
  have low: "\<not> 35 <s speed ?p" "\<not> speed ?p <s - 35" by code_simp+
  have ring: "length (tacho_samples ?p) = 128" "tacho_samples_head ?p < 128" by code_simp+
  have close: "(1000300 :: c_int) - 1000000 < 400 * 33" by simp
  have acc: "\<not> (1000000 :: c_int) - tacho_samples ?p ! unat (tacho_samples_head ?p) < 400 * 33"
    by code_simp
  have fwd: "dir_step (run_direction ?s2) = 1" by code_simp
  note pair = bounce_pair_position [where s = ?p and sa = ?s1 and sb = ?s2 and ia = False
      and da = False and ib = True and db = False, OF low ring close refl refl]
  from pair have "tacho_samples_head ?s2 = tacho_samples_head ?s1" by blast
  moreover from pair acc have "irq_tacho ?s2 = irq_tacho ?p + dir_step (run_direction ?s2)"
    by blast
  ultimately show ?thesis by (simp add: fwd)
qed

text \<open>Three edges in quick succession after the probe: the first is decoded as reverse,
  the third as forward, and each is closer than the minimum interval to the one before.
  Over the handlers of the second and third edge the live position goes from -1 to 1.\<close>

theorem bounce_pair_changes_by_two:
  "irq_tacho (tacho_motor_isr False False 1000000 (probe_data TACHO_MOTOR_EV3_LARGE)) = - 1
   \<and> irq_tacho
       (tacho_motor_isr True False 1000600
         (tacho_motor_isr False False 1000300
           (tacho_motor_isr False False 1000000 (probe_data TACHO_MOTOR_EV3_LARGE)))) = 1
   \<and> (1000600 :: c_int) - 1000300 < 400 * 33"
  by code_simp

section \<open>Anti-windup in the speed regulator\<close>

lemma update_output_pid_I: "pid_I (ev3_tacho_motor_update_output s) = pid_I s"
  by (simp add: ev3_tacho_motor_update_output_def emit_def Let_def split: tm_stop_mode.split)

lemma set_power_pid_I: "pid_I (ev3_tacho_motor_set_power p s) = pid_I s"
  by (simp add: ev3_tacho_motor_set_power_def update_output_pid_I)

lemma regulate_speed_pid_I: "pid_I (regulate_speed s) = pid_I (fst (regulate_speed_terms s))"
  by (simp add: regulate_speed_def set_power_pid_I split: prod.split)

text \<open>The integral term after one run of the regulator.\<close>

lemma regulate_speed_terms_I:
  "pid_I (fst (regulate_speed_terms s))
     = (if 100 <s c_abs (snd (regulate_speed_terms s)) then pid_I s
        else pid_I s + (speed_reg_sp (clamp_speed_reg_sp s) - pulses_per_second s))"
  by (simp add: regulate_speed_terms_def clamp_speed_reg_sp_def Let_def)

text \<open>The computed power, in terms of the state the regulator starts from.\<close>

lemma regulate_speed_terms_power:
  "snd (regulate_speed_terms s)
     = c_sdiv ((speed_reg_sp (clamp_speed_reg_sp s) - pulses_per_second s)
                 * pid_speed_regulation_P s
               + (pid_I s + (speed_reg_sp (clamp_speed_reg_sp s) - pulses_per_second s))
                 * pid_speed_regulation_I s
               + (pulses_per_second s - pid_prev_pulses_per_second s)
                 * pid_speed_regulation_D s)
              (pid_speed_regulation_K s)"
  by (simp add: regulate_speed_terms_def clamp_speed_reg_sp_def pid_power_def Let_def)

text \<open>The test \<^verbatim>\<open>100 < abs(power)\<close> is the test on the magnitude, except at \<open>INT_MIN\<close>,
  whose negation wraps to itself.\<close>

lemma c_abs_magnitude:
  assumes "sint p \<noteq> - (2 ^ 31)"
  shows "(100 <s c_abs p) = (100 < \<bar>sint p\<bar>)"
proof -
  have l: "- (2 ^ 31) \<le> sint p" and u: "sint p < 2 ^ 31"
    using sint_ge [of p] sint_lt [of p] by simp_all
  have "sint (- p) = - sint p"
    using assms l u sint_diff_c [of 0 p] by simp
  then show ?thesis
    by (simp add: c_abs_def word_sless_alt)
qed

lemma update_output_power_range:
  assumes "- 100 \<le> sint (power_lvl s)" and "sint (power_lvl s) \<le> 100"
  shows "- 100 \<le> sint (power_lvl (ev3_tacho_motor_update_output s))
         \<and> sint (power_lvl (ev3_tacho_motor_update_output s)) \<le> 100"
  using assms
  by (simp add: ev3_tacho_motor_update_output_def emit_def Let_def split: tm_stop_mode.split)

lemma set_power_range:
  assumes "- 100 \<le> sint (power_lvl s)" and "sint (power_lvl s) \<le> 100"
  shows "- 100 \<le> sint (power_lvl (ev3_tacho_motor_set_power p s))
         \<and> sint (power_lvl (ev3_tacho_motor_set_power p s)) \<le> 100"
  using assms clamp_power_range [of p]
    update_output_power_range [of "s\<lparr>power_lvl := clamp_power p\<rparr>"]
  by (auto simp: ev3_tacho_motor_set_power_def)

lemma regulate_speed_power_range:
  assumes "- 100 \<le> sint (power_lvl s)" and "sint (power_lvl s) \<le> 100"
  shows "- 100 \<le> sint (power_lvl (regulate_speed s))
         \<and> sint (power_lvl (regulate_speed s)) \<le> 100"
proof -
  obtain s6 p where t: "regulate_speed_terms s = (s6, p)" by (cases "regulate_speed_terms s")
  have "power_lvl s6 = power_lvl s"
    using t by (auto simp: regulate_speed_terms_def clamp_speed_reg_sp_def Let_def)
  with assms set_power_range [of s6] t show ?thesis
    by (simp add: regulate_speed_def)
qed

text \<open>Over a run of ticks on each of which the computed power is beyond 100 in magnitude
  the integral term keeps the value it had before the run.\<close>

lemma drive_saturated_I:
  "\<forall>p \<in> set (snd (drive_speed_regulator sp vs s)). 100 <s c_abs p
     \<Longrightarrow> pid_I (fst (drive_speed_regulator sp vs s)) = pid_I s"
proof (induction vs arbitrary: s)
  case Nil
  then show ?case by simp
next
  case (Cons v vs)
  let ?s0 = "s\<lparr>speed_reg_sp := sp, pulses_per_second := v\<rparr>"
  obtain s' ps where d: "drive_speed_regulator sp vs (regulate_speed ?s0) = (s', ps)"
    by (cases "drive_speed_regulator sp vs (regulate_speed ?s0)")
  from Cons.prems d have sat: "100 <s c_abs (snd (regulate_speed_terms ?s0))"
    and rest: "\<forall>p \<in> set (snd (drive_speed_regulator sp vs (regulate_speed ?s0))). 100 <s c_abs p"
    by (simp_all add: Let_def)
  from Cons.IH [OF rest] have "pid_I s' = pid_I (regulate_speed ?s0)" by (simp add: d)
  also have "\<dots> = pid_I ?s0"
    using sat by (simp add: regulate_speed_pid_I regulate_speed_terms_I)
  finally show ?case by (simp add: d Let_def)
qed

text \<open>
  Claim C5, as the source has it. On every run of the speed regulator the error is added
  to the integral term, and whenever the magnitude of the computed power
  (P*Kp + I*Ki + D*Kd) / K exceeds 100 the error just added is subtracted again, so the
  integral term leaves such a tick with the value it entered with. Consequently the
  integral term does not wind up: over any run of ticks on each of which the computed
  power is beyond 100 in magnitude, whatever the setpoint and the measured speeds, it
  keeps the value it had before the run. The power handed to the output stays within
  [-100, 100] by the clamp of \<open>ev3_tacho_motor_set_power\<close>. The computed power itself is
  not bounded by this: it stays beyond 100 for as long as the other terms put it there.
\<close>

theorem speed_regulator_anti_windup:
  "pid_I (regulate_speed s)
     = (if 100 <s c_abs (snd (regulate_speed_terms s)) then pid_I s
        else pid_I s + (speed_reg_sp (clamp_speed_reg_sp s) - pulses_per_second s))
   \<and> snd (regulate_speed_terms s)
       = c_sdiv ((speed_reg_sp (clamp_speed_reg_sp s) - pulses_per_second s)
                   * pid_speed_regulation_P s
                 + (pid_I s + (speed_reg_sp (clamp_speed_reg_sp s) - pulses_per_second s))
                   * pid_speed_regulation_I s
                 + (pulses_per_second s - pid_prev_pulses_per_second s)
                   * pid_speed_regulation_D s)
                (pid_speed_regulation_K s)
   \<and> (sint (snd (regulate_speed_terms s)) \<noteq> - (2 ^ 31) \<longrightarrow>
        (100 <s c_abs (snd (regulate_speed_terms s)))
          = (100 < \<bar>sint (snd (regulate_speed_terms s))\<bar>))
   \<and> ((\<forall>p \<in> set (snd (drive_speed_regulator sp vs s)). 100 <s c_abs p) \<longrightarrow>
        pid_I (fst (drive_speed_regulator sp vs s)) = pid_I s)
   \<and> (- 100 \<le> sint (power_lvl s) \<and> sint (power_lvl s) \<le> 100 \<longrightarrow>
        - 100 \<le> sint (power_lvl (regulate_speed s))
        \<and> sint (power_lvl (regulate_speed s)) \<le> 100)"
  using regulate_speed_terms_power [of s] c_abs_magnitude [of "snd (regulate_speed_terms s)"]
    drive_saturated_I [of sp vs s] regulate_speed_power_range [of s]
  by (simp add: regulate_speed_pid_I regulate_speed_terms_I)

theorem speed_regulator_anti_windup_witness:
  "pid_I (fst (drive_speed_regulator 2000 [0, 0, 0]
       (ev3_tacho_motor_set_regulation_mode TM_REGULATION_ON (probe_data TACHO_MOTOR_EV3_LARGE))))
     = 0
   \<and> pid_I (regulate_speed
        ((ev3_tacho_motor_set_regulation_mode TM_REGULATION_ON
            (probe_data TACHO_MOTOR_EV3_LARGE))\<lparr>speed_reg_sp := 450\<rparr>)) = 450"
proof -
  let ?s = "ev3_tacho_motor_set_regulation_mode TM_REGULATION_ON (probe_data TACHO_MOTOR_EV3_LARGE)"
  have sat: "\<forall>p \<in> set (snd (drive_speed_regulator 2000 [0, 0, 0] ?s)). 100 <s c_abs p"
    by code_simp
  have i0: "pid_I ?s = 0" by code_simp
  have unsat: "\<not> 100 <s c_abs (snd (regulate_speed_terms (?s\<lparr>speed_reg_sp := 450\<rparr>)))"
    by code_simp
  have e: "pid_I (?s\<lparr>speed_reg_sp := 450\<rparr>)
             + (speed_reg_sp (clamp_speed_reg_sp (?s\<lparr>speed_reg_sp := 450\<rparr>))
                - pulses_per_second (?s\<lparr>speed_reg_sp := 450\<rparr>)) = 450"
    by code_simp
  from speed_regulator_anti_windup [of ?s 2000 "[0, 0, 0]"] sat i0
  have "pid_I (fst (drive_speed_regulator 2000 [0, 0, 0] ?s)) = 0" by simp
  moreover from speed_regulator_anti_windup [of "?s\<lparr>speed_reg_sp := 450\<rparr>"] unsat e
  have "pid_I (regulate_speed (?s\<lparr>speed_reg_sp := 450\<rparr>)) = 450" by simp
  ultimately show ?thesis by simp
qed

text \<open>A stalled medium motor driven with a setpoint beyond its maximum rate of 1200: the
  setpoint is clamped to 1200, the error is 1200 on every tick, and the computed power is
  141 on every tick, while the integral term stays 0.\<close>

theorem computed_power_stays_beyond_100:
  "snd (drive_speed_regulator 2000 [0, 0, 0]
       (ev3_tacho_motor_set_regulation_mode TM_REGULATION_ON
          (probe_data TACHO_MOTOR_EV3_MEDIUM))) = [141, 141, 141]
   \<and> pid_I (fst (drive_speed_regulator 2000 [0, 0, 0]
       (ev3_tacho_motor_set_regulation_mode TM_REGULATION_ON
          (probe_data TACHO_MOTOR_EV3_MEDIUM)))) = 0"
  by code_simp

section \<open>The run-forever scenario\<close>

lemma sint_of_nat_c: "n < 2 ^ 31 \<Longrightarrow> sint (of_nat n :: c_int) = int n"
  using sint_word_of_int_c [of "int n"] by simp

lemma tm_loop_done: "\<not> snd (tm_step s) \<Longrightarrow> tm_loop s = fst (tm_step s)"
  by (subst tm_loop.simps) (simp add: case_prod_unfold)

lemma tm_loop_again: "snd (tm_step s) \<Longrightarrow> tm_loop s = tm_loop (fst (tm_step s))"
  by (subst tm_loop.simps) (simp add: case_prod_unfold)

lemma update_output_cfg: "ramp_cfg (ev3_tacho_motor_update_output s) = ramp_cfg s"
  by (simp add: ramp_cfg_def ev3_tacho_motor_update_output_def emit_def Let_def
      split: tm_stop_mode.split)

lemma set_power_cfg: "ramp_cfg (ev3_tacho_motor_set_power p s) = ramp_cfg s"
  using update_output_cfg [of "s\<lparr>power_lvl := clamp_power p\<rparr>"]
  by (simp add: ev3_tacho_motor_set_power_def) (simp add: ramp_cfg_def)

lemma set_power_50: "power_lvl (ev3_tacho_motor_set_power 50 s) = 50"
  by (simp add: ev3_tacho_motor_set_power_def ev3_tacho_motor_update_output_def emit_def
      clamp_power_def MAX_POWER_def Let_def word_sless_alt)

lemma calculate_speed_cfg:
  "ramp_cfg (fst (calculate_speed now s)) = ramp_cfg s
   \<and> power_lvl (fst (calculate_speed now s)) = power_lvl s"
  by (simp add: ramp_cfg_def calculate_speed_def set_samples_per_speed_def Let_def)

lemma isr_cfg:
  "ramp_cfg (tacho_motor_isr i d t s) = ramp_cfg s
   \<and> power_lvl (tacho_motor_isr i d t s) = power_lvl s"
  by (simp add: ramp_cfg_def tacho_motor_isr_def isr_decide_def bump_dir_chg_samples_def Let_def)

lemma cfg_fields:
  assumes "ramp_cfg a = ramp_cfg b"
  shows "run a = run b" "state a = state b" "run_mode a = run_mode b"
    "regulation_mode a = regulation_mode b" "duty_cycle_sp a = duty_cycle_sp b"
    "ramp_up_sp a = ramp_up_sp b" "ramp_down_sp a = ramp_down_sp b" "time_sp a = time_sp b"
    "ramp_up_full a = ramp_up_full b" "ramp_up_end a = ramp_up_end b"
    "ramp_count a = ramp_count b" "ramp_percent a = ramp_percent b"
  using assms by (simp_all add: ramp_cfg_def)

text \<open>The timer callback when the run flag is set and regulation is off.\<close>

lemma timer_callback_open_loop:
  assumes "run s \<noteq> 0" and "regulation_mode s = TM_REGULATION_OFF"
    and "run (tm_loop (advance_ramp_count (fst (calculate_speed now s)))) \<noteq> 0"
    and "regulation_mode (tm_loop (advance_ramp_count (fst (calculate_speed now s))))
           = TM_REGULATION_OFF"
  shows "ev3_tacho_motor_timer_callback now s
           = tm_loop (advance_ramp_count (fst (calculate_speed now s)))"
  using assms calculate_speed_frame [of now s]
  by (simp add: ev3_tacho_motor_timer_callback_def case_prod_unfold Let_def no_run_def)

text \<open>One pass of the switch in each phase.\<close>

lemma setup_ramp_time_step:
  assumes "started s"
  shows "ramping_up 0 (tm_loop s)"
proof -
  let ?a = "fst (tm_step s)"
  have a: "snd (tm_step s)" "state ?a = TM_STATE_SETUP_RAMP_REGULATION"
    "run ?a \<noteq> 0" "run_mode ?a = TM_RUN_FOREVER" "regulation_mode ?a = TM_REGULATION_OFF"
    "duty_cycle_sp ?a = 50" "ramp_up_full ?a = 250" "ramp_up_end ?a = 250" "power_lvl ?a = 0"
    using assms
    by (simp_all add: started_def tm_step_def case_setup_ramp_time_def set_ramp_full_def
        Let_def c_abs_def c_sdiv_def word_sless_alt)
  let ?b = "fst (tm_step ?a)"
  have b: "snd (tm_step ?a)" "state ?b = TM_STATE_RAMP_UP"
    "run ?b \<noteq> 0" "run_mode ?b = TM_RUN_FOREVER" "regulation_mode ?b = TM_REGULATION_OFF"
    "duty_cycle_sp ?b = 50" "ramp_up_full ?b = 250" "ramp_up_end ?b = 250" "power_lvl ?b = 0"
    "ramp_count ?b = 0"
    using a by (simp_all add: tm_step_def case_setup_ramp_regulation_def)
  have c: "tm_step ?b = (?b\<lparr>ramp_percent := 0\<rparr>, False)"
    using b
    by (simp add: tm_step_def case_ramp_up_def Let_def calculate_ramp_progress_def
        update_motor_speed_or_power_def ev3_tacho_motor_set_power_def c_sdiv_def word_sle_eq)
  have "tm_loop s = ?b\<lparr>ramp_percent := 0\<rparr>"
    using a(1) b(1) c by (simp add: tm_loop_again tm_loop_done)
  then show ?thesis
    using b by (simp add: ramping_up_def calculate_ramp_progress_def c_sdiv_def word_sle_eq)
qed

lemma ramp_up_step_stay:
  assumes "state s = TM_STATE_RAMP_UP" "run_mode s = TM_RUN_FOREVER"
    "regulation_mode s = TM_REGULATION_OFF" "duty_cycle_sp s = 50"
    "ramp_up_full s = 250" "ramp_up_end s = 250" "ramp_count s = of_nat (2 * j)" "j \<le> 124"
  shows "tm_step s
           = (ev3_tacho_motor_set_power
                (c_sdiv (50 * calculate_ramp_progress (of_nat (2 * j)) 250) 100)
                (s\<lparr>ramp_percent := calculate_ramp_progress (of_nat (2 * j)) 250\<rparr>), False)"
proof -
  have "sint (of_nat (2 * j) :: c_int) = int (2 * j)"
    using assms(8) by (intro sint_of_nat_c) simp
  then have "\<not> (250 :: c_int) \<le>s of_nat (2 * j)"
    using assms(8) by (simp add: word_sle_eq)
  with assms show ?thesis
    by (simp add: tm_step_def case_ramp_up_def Let_def update_motor_speed_or_power_def)
qed

lemma ramp_up_step_done:
  assumes "state s = TM_STATE_RAMP_UP" "run_mode s = TM_RUN_FOREVER"
    "regulation_mode s = TM_REGULATION_OFF" "duty_cycle_sp s = 50"
    "ramp_up_full s = 250" "ramp_up_end s = 250" "ramp_count s = 250"
  shows "tm_step s
           = (ev3_tacho_motor_set_power 50
                (s\<lparr>state := TM_STATE_RAMP_CONST, ramp_percent := 100\<rparr>), True)"
  using assms
  by (simp add: tm_step_def case_ramp_up_def Let_def update_motor_speed_or_power_def
      calculate_ramp_progress_def c_sdiv_def)

lemma ramp_const_step:
  assumes "state s = TM_STATE_RAMP_CONST" "run_mode s = TM_RUN_FOREVER"
    "regulation_mode s = TM_REGULATION_OFF" "duty_cycle_sp s = 50"
    "ramp_percent s = 100" "power_lvl s = 50"
  shows "tm_step s
           = (s\<lparr>ramp_down_start := ramp_count s,
                ramp_down_end := ramp_count s + c_sdiv (c_abs 50 * ramp_down_sp s) 100\<rparr>, False)"
  using assms
  by (simp add: tm_step_def case_ramp_const_def Let_def update_motor_speed_or_power_def
      ev3_tacho_motor_set_power_def c_sdiv_def)

text \<open>A tick in each phase.\<close>

lemma tick_started:
  assumes "started s"
  shows "ramping_up 0 (ev3_tacho_motor_timer_callback now s)"
proof -
  let ?s1 = "fst (calculate_speed now s)"
  note f = cfg_fields [OF conjunct1 [OF calculate_speed_cfg [of now s]]]
  have p: "power_lvl ?s1 = power_lvl s" using calculate_speed_cfg [of now s] by simp
  have st: "started ?s1" using assms f p by (simp add: started_def)
  have adv: "advance_ramp_count ?s1 = ?s1"
    using st by (simp add: advance_ramp_count_def started_def)
  have r: "ramping_up 0 (tm_loop ?s1)" by (rule setup_ramp_time_step [OF st])
  have "ev3_tacho_motor_timer_callback now s = tm_loop ?s1"
    using timer_callback_open_loop [of s now] assms r
    by (simp add: adv started_def ramping_up_def)
  with r show ?thesis by simp
qed

lemma tick_ramping_up:
  assumes "ramping_up j s" and "j < 124"
  shows "ramping_up (Suc j) (ev3_tacho_motor_timer_callback now s)"
proof -
  let ?s1 = "fst (calculate_speed now s)"
  let ?s2 = "?s1\<lparr>ramp_count := ramp_count ?s1 + 2\<rparr>"
  let ?pct = "calculate_ramp_progress (of_nat (2 * Suc j)) 250"
  let ?s3 = "ev3_tacho_motor_set_power (c_sdiv (50 * ?pct) 100) (?s2\<lparr>ramp_percent := ?pct\<rparr>)"
  note f = cfg_fields [OF conjunct1 [OF calculate_speed_cfg [of now s]]]
  have adv: "advance_ramp_count ?s1 = ?s2"
    using assms f by (simp add: advance_ramp_count_def ramping_up_def)
  have cnt: "ramp_count ?s2 = of_nat (2 * Suc j)"
    using assms f by (simp add: ramping_up_def)
  have step: "tm_step ?s2 = (?s3, False)"
    using assms f cnt by (intro ramp_up_step_stay) (simp_all add: ramping_up_def)
  then have loop: "tm_loop ?s2 = ?s3" by (simp add: tm_loop_done)
  note g = cfg_fields [OF set_power_cfg [of "c_sdiv (50 * ?pct) 100" "?s2\<lparr>ramp_percent := ?pct\<rparr>"]]
  have pw: "?pct = 100 \<longrightarrow> power_lvl ?s3 = 50"
    by (simp add: set_power_50 c_sdiv_def)
  have r: "ramping_up (Suc j) ?s3"
    using assms f g cnt pw by (simp add: ramping_up_def)
  have "ev3_tacho_motor_timer_callback now s = ?s3"
    using timer_callback_open_loop [of s now] assms(1) r
    by (simp add: adv loop ramping_up_def)
  with r show ?thesis by simp
qed

lemma tick_ramp_up_done:
  assumes "ramping_up 124 s"
  shows "at_setpoint (ev3_tacho_motor_timer_callback now s)"
proof -
  let ?s1 = "fst (calculate_speed now s)"
  let ?s2 = "?s1\<lparr>ramp_count := ramp_count ?s1 + 2\<rparr>"
  let ?s3 = "ev3_tacho_motor_set_power 50 (?s2\<lparr>state := TM_STATE_RAMP_CONST, ramp_percent := 100\<rparr>)"
  let ?s4 = "?s3\<lparr>ramp_down_start := ramp_count ?s3,
                ramp_down_end := ramp_count ?s3 + c_sdiv (c_abs 50 * ramp_down_sp ?s3) 100\<rparr>"
  note f = cfg_fields [OF conjunct1 [OF calculate_speed_cfg [of now s]]]
  have adv: "advance_ramp_count ?s1 = ?s2"
    using assms f by (simp add: advance_ramp_count_def ramping_up_def)
  have cnt: "ramp_count ?s2 = 250"
    using assms f by (simp add: ramping_up_def)
  have step1: "tm_step ?s2 = (?s3, True)"
    using assms f cnt by (intro ramp_up_step_done) (simp_all add: ramping_up_def)
  note g = cfg_fields [OF set_power_cfg
      [of 50 "?s2\<lparr>state := TM_STATE_RAMP_CONST, ramp_percent := 100\<rparr>"]]
  have step2: "tm_step ?s3 = (?s4, False)"
    using assms f g by (intro ramp_const_step) (simp_all add: ramping_up_def set_power_50)
  have loop: "tm_loop ?s2 = ?s4"
    using step1 step2 by (simp add: tm_loop_again tm_loop_done)
  have r: "at_setpoint ?s4"
    using assms f g by (simp add: at_setpoint_def ramping_up_def set_power_50)
  have "ev3_tacho_motor_timer_callback now s = ?s4"
    using timer_callback_open_loop [of s now] assms(1) r
    by (simp add: adv loop ramping_up_def at_setpoint_def)
  with r show ?thesis by simp
qed

lemma tick_at_setpoint:
  assumes "at_setpoint s"
  shows "at_setpoint (ev3_tacho_motor_timer_callback now s)"
proof -
  let ?s1 = "fst (calculate_speed now s)"
  let ?s2 = "?s1\<lparr>ramp_count := ramp_count ?s1 + 2\<rparr>"
  let ?s4 = "?s2\<lparr>ramp_down_start := ramp_count ?s2,
                ramp_down_end := ramp_count ?s2 + c_sdiv (c_abs 50 * ramp_down_sp ?s2) 100\<rparr>"
  note f = cfg_fields [OF conjunct1 [OF calculate_speed_cfg [of now s]]]
  have p: "power_lvl ?s1 = power_lvl s" using calculate_speed_cfg [of now s] by simp
  have adv: "advance_ramp_count ?s1 = ?s2"
    using assms f by (simp add: advance_ramp_count_def at_setpoint_def)
  have step: "tm_step ?s2 = (?s4, False)"
    using assms f p by (intro ramp_const_step) (simp_all add: at_setpoint_def)
  then have loop: "tm_loop ?s2 = ?s4" by (simp add: tm_loop_done)
  have r: "at_setpoint ?s4"
    using assms f p by (simp add: at_setpoint_def)
  have "ev3_tacho_motor_timer_callback now s = ?s4"
    using timer_callback_open_loop [of s now] assms(1) r
    by (simp add: adv loop at_setpoint_def)
  with r show ?thesis by simp
qed

text \<open>An encoder edge leaves every phase as it is.\<close>

lemma edge_phase:
  "started (tacho_motor_isr i d t s) = started s"
  "ramping_up j (tacho_motor_isr i d t s) = ramping_up j s"
  "at_setpoint (tacho_motor_isr i d t s) = at_setpoint s"
  using cfg_fields [OF conjunct1 [OF isr_cfg [of i d t s]]] isr_cfg [of i d t s]
  by (simp_all add: started_def ramping_up_def at_setpoint_def)

lemma tick_phase: "phase k s \<Longrightarrow> phase (Suc k) (ev3_tacho_motor_timer_callback now s)"
proof -
  assume p: "phase k s"
  consider "k = 0" | "1 \<le> k" "k < 125" | "k = 125" | "126 \<le> k" by linarith
  then show ?thesis
  proof cases
    case 1
    with p show ?thesis by (simp add: phase_def tick_started)
  next
    case 2
    with p have "ramping_up (k - 1) s" by (simp add: phase_def)
    from tick_ramping_up [OF this, of now] 2 show ?thesis by (simp add: phase_def)
  next
    case 3
    with p show ?thesis by (simp add: phase_def tick_ramp_up_done)
  next
    case 4
    with p show ?thesis by (simp add: phase_def tick_at_setpoint)
  qed
qed

lemma run_events_phase: "phase k s \<Longrightarrow> phase (k + ticks_in evs) (run_events evs s)"
proof (induction evs arbitrary: k s)
  case Nil
  then show ?case by simp
next
  case (Cons e evs)
  show ?case
  proof (cases e)
    case (Tick now)
    from Cons.IH [OF tick_phase [OF Cons.prems, of now]] Tick show ?thesis by simp
  next
    case (Edge i d t)
    from Cons.prems have "phase k (tacho_motor_isr i d t s)"
      unfolding phase_def edge_phase .
    from Cons.IH [OF this] Edge show ?thesis by simp
  qed
qed

lemma scenario_start_started: "started (scenario_start mid)"
  by (simp add: started_def scenario_start_def ev3_tacho_motor_set_run_def
      ev3_tacho_motor_set_ramp_up_sp_def ev3_tacho_motor_set_duty_cycle_sp_def
      probe_data_def ev3_tacho_motor_reset_def Let_def)

lemma scenario_phase: "phase (ticks_in evs) (run_events evs (scenario_start mid))"
proof -
  have "phase 0 (scenario_start mid)"
    unfolding phase_def using scenario_start_started [of mid] by simp
  from run_events_phase [OF this, of evs] show ?thesis by simp
qed

text \<open>The percentage while the counter is below the window of 250 ms.\<close>

lemma ramp_progress_250:
  assumes "j \<le> 123"
  shows "sint (calculate_ramp_progress (of_nat (2 * j)) 250) = (4 * int j) div 5"
proof -
  have c: "sint (of_nat (2 * j) :: c_int) = 2 * int j"
    using assms sint_of_nat_c [of "2 * j"] by simp
  have c2: "sint (of_nat (2 * j) + 2 :: c_int) = 2 * int j + 2"
    using assms c by (subst sint_add_c) simp_all
  have m: "sint (of_nat (2 * j) * 100 :: c_int) = 200 * int j"
    using assms c by (subst sint_mult_c) simp_all
  have d: "sint (c_sdiv (of_nat (2 * j) * 100) 250) = (200 * int j) sdiv 250"
    using assms m by (subst sint_c_sdiv) simp_all
  have "(200 * int j) sdiv 250 = (200 * int j) div 250"
    by (simp add: signed_divide_int_def sgn_if)
  also have "\<dots> = (50 * (4 * int j)) div (50 * 5)" by simp
  also have "\<dots> = (4 * int j) div 5" by (rule div_mult_mult1) simp
  finally have e: "(200 * int j) sdiv 250 = (4 * int j) div 5" .
  have n: "\<not> (250 :: c_int) \<le>s of_nat (2 * j) + 2"
    unfolding word_sle_eq c2 using assms by simp
  have z: "(0 :: c_int) \<noteq> 250" by simp
  show ?thesis
    unfolding calculate_ramp_progress_def by (simp only: n z if_False d e)
qed

text \<open>
  Claim C2, as the source has it. With run mode RunForever, regulation off, duty-cycle
  setpoint 50, ramp-up setpoint 500 ms and a 2 ms tick, the up window is the ramp-up
  setpoint scaled by the duty-cycle setpoint, 50 * 500 / 100 = 250 ms. Starting a run
  yields, after tick \<open>k\<close> for \<open>k\<close> from 1 to 124, the ramp percentage
  \<open>4 * (k - 1) div 5\<close> (49 after tick 63, 50 after tick 64), and from tick 125 onward
  (in particular at tick 250 and beyond) the ramp percentage equals 100 and the commanded
  power equals 50. This holds for every motor type, every timer reading and every
  interleaving of encoder edges with the ticks.
\<close>

theorem run_forever_ramp_scenario:
  "(125 \<le> ticks_in evs \<longrightarrow>
      ramp_percent (run_events evs (scenario_start mid)) = 100
      \<and> power_lvl (run_events evs (scenario_start mid)) = 50)
   \<and> (1 \<le> ticks_in evs \<and> ticks_in evs \<le> 124 \<longrightarrow>
        sint (ramp_percent (run_events evs (scenario_start mid)))
          = (4 * (int (ticks_in evs) - 1)) div 5)"
proof -
  note p = scenario_phase [of evs mid]
  have late: "ramp_percent (run_events evs (scenario_start mid)) = 100
      \<and> power_lvl (run_events evs (scenario_start mid)) = 50"
    if k: "125 \<le> ticks_in evs"
  proof (cases "ticks_in evs = 125")
    case True
    with p have r: "ramping_up 124 (run_events evs (scenario_start mid))"
      by (simp add: phase_def)
    have "calculate_ramp_progress (of_nat (2 * 124)) 250 = 100"
      by (simp add: calculate_ramp_progress_def)
    with r show ?thesis by (simp add: ramping_up_def)
  next
    case False
    with k p have "at_setpoint (run_events evs (scenario_start mid))"
      by (simp add: phase_def)
    then show ?thesis by (simp add: at_setpoint_def)
  qed
  have early: "sint (ramp_percent (run_events evs (scenario_start mid)))
          = (4 * (int (ticks_in evs) - 1)) div 5"
    if k: "1 \<le> ticks_in evs" "ticks_in evs \<le> 124"
  proof -
    from k p have r: "ramping_up (ticks_in evs - 1) (run_events evs (scenario_start mid))"
      by (simp add: phase_def)
    from k have "ticks_in evs - 1 \<le> 123" by simp
    from ramp_progress_250 [OF this] r k show ?thesis
      by (simp add: ramping_up_def)
  qed
  from late early show ?thesis by blast
qed

theorem run_forever_ramp_scenario_witness:
  "ramp_percent (run_events (ticks_2ms 250) (scenario_start TACHO_MOTOR_EV3_LARGE)) = 100
   \<and> power_lvl (run_events (ticks_2ms 250) (scenario_start TACHO_MOTOR_EV3_LARGE)) = 50
   \<and> sint (ramp_percent (run_events (ticks_2ms 64) (scenario_start TACHO_MOTOR_EV3_LARGE))) = 50"
proof -
  have k: "ticks_in (ticks_2ms 250) = 250" "ticks_in (ticks_2ms 64) = 64"
    by code_simp+
  from run_forever_ramp_scenario [of "ticks_2ms 250" TACHO_MOTOR_EV3_LARGE]
    run_forever_ramp_scenario [of "ticks_2ms 64" TACHO_MOTOR_EV3_LARGE] k
  show ?thesis by simp
qed

text \<open>After 125 ticks, 2 ms apart and without encoder edges, the ramp percentage is
  100, not about 50.\<close>

theorem ramp_percent_at_tick_125:
  "ramp_percent (run_events (ticks_2ms 125) (scenario_start TACHO_MOTOR_EV3_LARGE)) = 100
   \<and> ticks_in (ticks_2ms 125) = 125"
  by code_simp

end
